theory Spec2Isabelle
  imports
    Complex_Main
    "HOL-Library.Char_ord"
    "HOL-Library.List_Lexorder"
    "HOL-Library.Product_Lexorder"
    "HOL-Library.Sublist"
begin

section \<open>Values of the host language\<close>

text \<open>
  The checker's output is decoded by \<^verbatim>\<open>json.loads\<close>, so every raw value the runner
  touches is one of Python's JSON values. A mapping is kept as an association list (Python
  dicts keep their insertion order; the decoder leaves one entry per key) and is read with
  \<open>map_of\<close>. A Python \<^verbatim>\<open>float\<close> is a finite double, given by its exact rational value,
  or one of the three special values that \<^verbatim>\<open>json.loads\<close> accepts as \<^verbatim>\<open>Infinity\<close>,
  \<^verbatim>\<open>-Infinity\<close> and \<^verbatim>\<open>NaN\<close>. Strings are byte strings (UTF-8), whose
  lexicographic order is Python's order of code points.
\<close>

datatype pyfloat = FloatVal rat | FloatInf | FloatNegInf | FloatNaN

datatype json =
    JNull
  | JBool bool
  | JInt int
  | JFloat pyfloat
  | JStr string
  | JList "json list"
  | JDict "(string \<times> json) list"

text \<open>The exceptions that the modelled code can let escape.\<close>

datatype error =
    AttributeError
  | TypeError
  | ValueError
  | OverflowError
  | KeyError
  | NotImplementedError
  | RuntimeError
  | OSError

definition bind_err :: "error + 'a \<Rightarrow> ('a \<Rightarrow> error + 'b) \<Rightarrow> error + 'b" where
  "bind_err m f = (case m of Inl e \<Rightarrow> Inl e | Inr x \<Rightarrow> f x)"

text \<open>A loop or comprehension whose body may raise: the first exception ends it.\<close>

fun map_err :: "('a \<Rightarrow> error + 'b) \<Rightarrow> 'a list \<Rightarrow> error + 'b list" where
  "map_err f [] = Inr []"
| "map_err f (x # xs) =
     bind_err (f x) (\<lambda>y. bind_err (map_err f xs) (\<lambda>ys. Inr (y # ys)))"

text \<open>Truth value of a JSON value, as used by \<^verbatim>\<open>x or {}\<close>.\<close>

fun truthy :: "json \<Rightarrow> bool" where
  "truthy JNull = False"
| "truthy (JBool b) = b"
| "truthy (JInt n) = (n \<noteq> 0)"
| "truthy (JFloat f) = (f \<noteq> FloatVal 0)"
| "truthy (JStr s) = (s \<noteq> [])"
| "truthy (JList xs) = (xs \<noteq> [])"
| "truthy (JDict kvs) = (kvs \<noteq> [])"

text \<open>\<^verbatim>\<open>x or {}\<close>\<close>

definition or_empty_dict :: "json \<Rightarrow> json" where
  "or_empty_dict v = (if truthy v then v else JDict [])"

text \<open>
  \<^verbatim>\<open>d.get(key, default)\<close>: only a mapping has the method; on any other value the
  attribute lookup raises \<^verbatim>\<open>AttributeError\<close>. \<^verbatim>\<open>d.get(key)\<close> is the case
  \<open>default = JNull\<close>.
\<close>

fun dict_get :: "json \<Rightarrow> string \<Rightarrow> json \<Rightarrow> error + json" where
  "dict_get (JDict kvs) k dflt = Inr (case map_of kvs k of None \<Rightarrow> dflt | Some v \<Rightarrow> v)"
| "dict_get _ k dflt = Inl AttributeError"

text \<open>\<^verbatim>\<open>int(x)\<close> of a float: truncation towards zero; the special values raise.\<close>

fun int_of_float :: "pyfloat \<Rightarrow> error + int" where
  "int_of_float (FloatVal q) = Inr (if 0 \<le> q then \<lfloor>q\<rfloor> else \<lceil>q\<rceil>)"
| "int_of_float FloatInf = Inl OverflowError"
| "int_of_float FloatNegInf = Inl OverflowError"
| "int_of_float FloatNaN = Inl ValueError"

text \<open>Decimal rendering of an integer, as \<^verbatim>\<open>str(n)\<close> and the f-string \<^verbatim>\<open>{n}\<close> do.\<close>

fun str_nat :: "nat \<Rightarrow> string" where
  "str_nat n = (if n < 10 then [''0123456789'' ! n]
                else str_nat (n div 10) @ [''0123456789'' ! (n mod 10)])"

definition str_int :: "int \<Rightarrow> string" where
  "str_int i = (if i < 0 then ''-'' @ str_nat (nat (- i)) else str_nat (nat i))"

section \<open>Paths\<close>

text \<open>
  A \<^verbatim>\<open>pathlib\<close> path of the POSIX flavour is its tuple of parts: \<^verbatim>\<open>Path("/r/a/x.py").parts\<close>
  is \<^verbatim>\<open>('/', 'r', 'a', 'x.py')\<close>, and the empty tuple is the path \<^verbatim>\<open>.\<close>. Two paths
  are equal when their parts are, and \<^verbatim>\<open>p < q\<close> compares the two part sequences
  element by element (\<^verbatim>\<open>PurePath.__lt__\<close>), which is the order of \<open>string list\<close> here.
\<close>

type_synonym path = "string list"

fun join_parts :: "string list \<Rightarrow> string" where
  "join_parts [] = []"
| "join_parts [p] = p"
| "join_parts (p # q # ps) = p @ ''/'' @ join_parts (q # ps)"

definition is_root_part :: "string \<Rightarrow> bool" where
  "is_root_part s = (s = ''/'' \<or> s = ''//'')"

text \<open>\<^verbatim>\<open>str(p)\<close>\<close>

definition path_str :: "path \<Rightarrow> string" where
  "path_str ps =
     (case ps of
        [] \<Rightarrow> ''.''
      | r # rest \<Rightarrow> if is_root_part r then r @ join_parts rest else join_parts ps)"

text \<open>\<^verbatim>\<open>p.name\<close>: the last part, empty for the root and for the empty path.\<close>

definition path_name :: "path \<Rightarrow> string" where
  "path_name ps =
     (case ps of
        [] \<Rightarrow> []
      | r # rest \<Rightarrow> if rest = [] \<and> is_root_part r then [] else last ps)"

text \<open>\<^verbatim>\<open>p.parent\<close>: the root and the empty path are their own parents.\<close>

definition path_parent :: "path \<Rightarrow> path" where
  "path_parent ps =
     (case ps of
        [] \<Rightarrow> []
      | r # rest \<Rightarrow> if rest = [] \<and> is_root_part r then ps else butlast ps)"

text \<open>\<^verbatim>\<open>p.relative_to(q)\<close>: \<open>None\<close> stands for the \<^verbatim>\<open>ValueError\<close>.\<close>

definition relative_to :: "path \<Rightarrow> path \<Rightarrow> path option" where
  "relative_to p q = (if prefix q p then Some (drop (length q) p) else None)"

section \<open>The host: library and operating system\<close>

record VersionInfo =
  version :: string
  executable_path :: string
  supports_outputjson :: bool

text \<open>What \<^verbatim>\<open>subprocess.run\<close> does: it returns a completed process (return code, captured
  stdout and stderr), or raises.\<close>

datatype proc_outcome =
    Completed int string string
  | TimeoutExpired
  | FileNotFoundError
  | ProcRaised error

text \<open>
  Everything the runner takes from outside its own code is a field of the host: the JSON
  decoder, the conversions and the string operations of the built-in types (which count
  code points, where the model's strings are bytes), the file system behind \<^verbatim>\<open>pathlib\<close>,
  shell-style matching, the iteration order of a \<^verbatim>\<open>set\<close>, the resolution of the
  checker's executable and the subprocess itself. The calls that reach the file system can
  raise: \<^verbatim>\<open>exists\<close>, \<^verbatim>\<open>is_dir\<close> and \<^verbatim>\<open>is_file\<close> pass on an \<^verbatim>\<open>OSError\<close> such as
  that of an over-long name, \<^verbatim>\<open>resolve\<close> raises \<^verbatim>\<open>ValueError\<close> on a NUL byte and
  \<^verbatim>\<open>RuntimeError\<close> on a loop of links, and \<^verbatim>\<open>glob\<close> rejects some patterns. A listing
  (\<^verbatim>\<open>glob\<close>, \<^verbatim>\<open>rglob\<close>) is taken as a whole. The theorems hold for every host.
\<close>

record host =
  json_loads :: "string \<Rightarrow> json option"
  py_repr :: "json \<Rightarrow> string"
  int_of_str :: "string \<Rightarrow> int option"
  float_of_int :: "int \<Rightarrow> error + pyfloat"
  float_of_str :: "string \<Rightarrow> pyfloat option"
  str_strip :: "string \<Rightarrow> string"
  str_len :: "string \<Rightarrow> nat"
  str_last :: "nat \<Rightarrow> string \<Rightarrow> string"
  mk_path :: "string \<Rightarrow> path"
  path_exists :: "path \<Rightarrow> error + bool"
  is_dir :: "path \<Rightarrow> error + bool"
  is_file :: "path \<Rightarrow> error + bool"
  resolve :: "path \<Rightarrow> error + path"
  glob :: "path \<Rightarrow> string \<Rightarrow> error + path list"
  rglob_all :: "path \<Rightarrow> error + path list"
  fnmatch :: "string \<Rightarrow> string \<Rightarrow> bool"
  set_order :: "path list \<Rightarrow> path list"
  detect_venv_path :: string
  build_pyright_argv :: "string list \<times> string"
  get_pyright_version :: VersionInfo
  subprocess_run :: "string list \<Rightarrow> string \<Rightarrow> int \<Rightarrow> proc_outcome"

text \<open>\<^verbatim>\<open>str(x)\<close>: a string is itself, any other value is rendered by the host.\<close>

definition py_str :: "host \<Rightarrow> json \<Rightarrow> string" where
  "py_str h v = (case v of JStr s \<Rightarrow> s | _ \<Rightarrow> py_repr h v)"

text \<open>\<^verbatim>\<open>int(x)\<close>\<close>

fun py_int :: "host \<Rightarrow> json \<Rightarrow> error + int" where
  "py_int h (JInt n) = Inr n"
| "py_int h (JBool b) = Inr (if b then 1 else 0)"
| "py_int h (JFloat f) = int_of_float f"
| "py_int h (JStr s) = (case int_of_str h s of None \<Rightarrow> Inl ValueError | Some n \<Rightarrow> Inr n)"
| "py_int h JNull = Inl TypeError"
| "py_int h (JList xs) = Inl TypeError"
| "py_int h (JDict kvs) = Inl TypeError"

text \<open>\<^verbatim>\<open>float(x)\<close>\<close>

fun py_float :: "host \<Rightarrow> json \<Rightarrow> error + pyfloat" where
  "py_float h (JFloat f) = Inr f"
| "py_float h (JInt n) = float_of_int h n"
| "py_float h (JBool b) = float_of_int h (if b then 1 else 0)"
| "py_float h (JStr s) = (case float_of_str h s of None \<Rightarrow> Inl ValueError | Some f \<Rightarrow> Inr f)"
| "py_float h JNull = Inl TypeError"
| "py_float h (JList xs) = Inl TypeError"
| "py_float h (JDict kvs) = Inl TypeError"

text \<open>\<^verbatim>\<open>d.get(key) or {}\<close>\<close>

definition get_or_empty :: "json \<Rightarrow> string \<Rightarrow> error + json" where
  "get_or_empty d k = bind_err (dict_get d k JNull) (\<lambda>v. Inr (or_empty_dict v))"

text \<open>\<^verbatim>\<open>int(d.get(key, 0))\<close>\<close>

definition get_int :: "host \<Rightarrow> json \<Rightarrow> string \<Rightarrow> error + int" where
  "get_int h d k = bind_err (dict_get d k (JInt 0)) (py_int h)"

section \<open>The runner's data\<close>

text \<open>\<^verbatim>\<open>SEVERITY_LEVEL\<close>\<close>

definition SEVERITY_LEVEL :: "string \<rightharpoonup> int" where
  "SEVERITY_LEVEL = [''information'' \<mapsto> 1, ''warning'' \<mapsto> 2, ''error'' \<mapsto> 3]"

record RangePos =
  line :: int
  character :: int

record Range =
  start :: RangePos
  endpos :: RangePos

record DiagnosticOut =
  filepath :: string
  rng :: Range
  severity :: string
  severity_level :: int
  message :: string
  code :: "string option"
  rule :: "string option"

record SummaryOut =
  files_analyzed :: int
  error_count :: int
  warning_count :: int
  information_count :: int
  time_sec :: pyfloat

record CheckResult =
  ok :: bool
  fail_reason :: "string option"
  command :: "string list"
  exit_code :: int
  summary :: SummaryOut
  diagnostics :: "DiagnosticOut list"
  pyright_version :: string
  analyzed_root :: string
  checked_paths :: "string list"
  venv_path :: string

record PyrightCheckParams =
  target :: string
  cwd :: "string option"
  include_globs :: "string list option"
  exclude_globs :: "string list option"
  extra_args :: "string list option"
  timeout_sec :: int
  fail_on_severity :: string

section \<open>Parsing the checker's output\<close>

text \<open>
  \<^verbatim>\<open>parse_pyright_json\<close>: the decoder's exceptions are all caught (\<^verbatim>\<open>except Exception\<close>),
  so the function returns \<open>None\<close> or the decoded mapping and never raises.
\<close>

definition parse_pyright_json :: "host \<Rightarrow> string \<Rightarrow> json option" where
  "parse_pyright_json h text =
     (case json_loads h text of
        None \<Rightarrow> None
      | Some obj \<Rightarrow>
          (case obj of
             JDict kvs \<Rightarrow>
               if map_of kvs ''summary'' = None \<or> map_of kvs ''generalDiagnostics'' = None
               then None
               else Some obj
           | _ \<Rightarrow> None))"

section \<open>Expanding the target\<close>

text \<open>An optional list is false when it is \<^verbatim>\<open>None\<close> or empty: \<^verbatim>\<open>if include:\<close> is
  \<open>opt_list include \<noteq> []\<close>.\<close>

definition opt_list :: "'a list option \<Rightarrow> 'a list" where
  "opt_list xo = (case xo of None \<Rightarrow> [] | Some xs \<Rightarrow> xs)"

text \<open>The loop over \<^verbatim>\<open>p.rglob("*")\<close>: every file below a matched directory is added,
  resolved.\<close>

fun add_files :: "host \<Rightarrow> path list \<Rightarrow> error + path list" where
  "add_files h [] = Inr []"
| "add_files h (f # fs) =
     bind_err (is_file h f) (\<lambda>b.
       if b then bind_err (resolve h f) (\<lambda>q.
                 bind_err (add_files h fs) (\<lambda>rest. Inr (q # rest)))
       else add_files h fs)"

text \<open>What one match \<open>p\<close> of an include glob adds to \<^verbatim>\<open>found\<close>.\<close>

definition expand_match :: "host \<Rightarrow> path \<Rightarrow> error + path list" where
  "expand_match h p =
     bind_err (is_file h p) (\<lambda>f.
       if f then bind_err (resolve h p) (\<lambda>q. Inr [q])
       else bind_err (is_dir h p) (\<lambda>d.
              if d then bind_err (rglob_all h p) (add_files h) else Inr []))"

text \<open>The loops over the include globs and their matches: the paths added to
  \<^verbatim>\<open>found\<close>, in the order of the additions.\<close>

fun collect_included :: "host \<Rightarrow> path \<Rightarrow> string list \<Rightarrow> error + path list" where
  "collect_included h rootp [] = Inr []"
| "collect_included h rootp (pat # pats) =
     bind_err (glob h rootp pat) (\<lambda>ms.
     bind_err (map_err (expand_match h) ms) (\<lambda>added.
     bind_err (collect_included h rootp pats) (\<lambda>rest.
       Inr (concat added @ rest))))"

text \<open>\<^verbatim>\<open>s.replace("\\", "/")\<close>\<close>

definition replace_backslash :: "string \<Rightarrow> string" where
  "replace_backslash s = map (\<lambda>c. if c = CHR 0x5C then CHR ''/'' else c) s"

text \<open>The test of the exclude loop: whether \<open>p\<close> is dropped. A \<^verbatim>\<open>ValueError\<close> of
  \<^verbatim>\<open>p.resolve().relative_to(relroot)\<close> is caught and the name of \<open>p\<close> taken instead;
  any other exception escapes.\<close>

definition excluded :: "host \<Rightarrow> path \<Rightarrow> string list \<Rightarrow> path \<Rightarrow> error + bool" where
  "excluded h relroot excl p =
     bind_err
       (case resolve h p of
          Inr q \<Rightarrow> Inr (relative_to q relroot)
        | Inl e \<Rightarrow> if e = ValueError then Inr None else Inl e)
       (\<lambda>rel.
          let rel_posix =
                (case rel of
                   Some r \<Rightarrow> replace_backslash (path_str r)
                 | None \<Rightarrow> path_name p);
              name = path_name p
          in Inr (list_ex (\<lambda>ex. fnmatch h rel_posix ex \<or> fnmatch h name ex) excl))"

text \<open>The exclude loop.\<close>

fun drop_excluded :: "host \<Rightarrow> path \<Rightarrow> string list \<Rightarrow> path list \<Rightarrow> error + path list" where
  "drop_excluded h relroot excl [] = Inr []"
| "drop_excluded h relroot excl (p # ps) =
     bind_err (excluded h relroot excl p) (\<lambda>x.
     bind_err (drop_excluded h relroot excl ps) (\<lambda>rest.
       Inr (if x then rest else p # rest)))"

text \<open>
  \<^verbatim>\<open>_iter_included_paths\<close>. \<^verbatim>\<open>list(found)\<close> lists the set in the order the host
  iterates it (\<open>set_order\<close>); the exclude filter runs on whatever \<^verbatim>\<open>paths\<close> holds,
  with or without include globs.
\<close>

definition iter_included_paths ::
  "host \<Rightarrow> path \<Rightarrow> string list option \<Rightarrow> string list option \<Rightarrow> error + path list" where
  "iter_included_paths h rootp incl excl =
     bind_err
       (if opt_list incl \<noteq> []
        then bind_err (collect_included h rootp (opt_list incl)) (\<lambda>found. Inr (set_order h found))
        else bind_err (resolve h rootp) (\<lambda>r. Inr [r]))
       (\<lambda>paths.
          if opt_list excl \<noteq> []
          then bind_err (resolve h rootp) (\<lambda>relroot.
                 drop_excluded h relroot (opt_list excl) paths)
          else Inr paths)"

section \<open>Normalizing a diagnostic\<close>

text \<open>\<^verbatim>\<open>sev_raw if sev_raw in ("information", "warning", "error") else "information"\<close>:
  only a string can be equal to one of the three names.\<close>

definition sev_of_raw :: "json \<Rightarrow> string" where
  "sev_of_raw sev_raw =
     (case sev_raw of
        JStr s \<Rightarrow> if s \<in> set [''information'', ''warning'', ''error''] then s
                  else ''information''
      | _ \<Rightarrow> ''information'')"

text \<open>\<^verbatim>\<open>str(rule_val) if isinstance(rule_val, str) else None\<close>\<close>

definition rule_of_raw :: "json \<Rightarrow> string option" where
  "rule_of_raw rule_val = (case rule_val of JStr s \<Rightarrow> Some s | _ \<Rightarrow> None)"

text \<open>\<^verbatim>\<open>_normalize_diag\<close>, with the evaluation order of the source.\<close>

definition normalize_diag :: "host \<Rightarrow> json \<Rightarrow> error + DiagnosticOut" where
  "normalize_diag h d =
     bind_err (dict_get d ''file'' (JStr [])) (\<lambda>file_raw.
     bind_err (dict_get d ''severity'' (JStr ''information'')) (\<lambda>sev_raw.
     bind_err (get_or_empty d ''range'') (\<lambda>rng_d.
     bind_err (get_or_empty rng_d ''start'') (\<lambda>start_d.
     bind_err (get_or_empty rng_d ''end'') (\<lambda>end_d.
     bind_err (resolve h (mk_path h (py_str h file_raw))) (\<lambda>file_res.
     bind_err (get_int h start_d ''line'') (\<lambda>sl.
     bind_err (get_int h start_d ''character'') (\<lambda>sc.
     bind_err (get_int h end_d ''line'') (\<lambda>el.
     bind_err (get_int h end_d ''character'') (\<lambda>ec.
     bind_err (case SEVERITY_LEVEL (sev_of_raw sev_raw) of
                 None \<Rightarrow> Inl KeyError
               | Some l \<Rightarrow> Inr l) (\<lambda>lvl.
     bind_err (dict_get d ''message'' (JStr [])) (\<lambda>msg_raw.
     bind_err (dict_get d ''rule'' JNull) (\<lambda>rule_val.
       Inr \<lparr> filepath = path_str file_res,
             rng = \<lparr> start = \<lparr> line = sl, character = sc \<rparr>,
                     endpos = \<lparr> line = el, character = ec \<rparr> \<rparr>,
             severity = sev_of_raw sev_raw,
             severity_level = lvl,
             message = py_str h msg_raw,
             code = rule_of_raw rule_val,
             rule = rule_of_raw rule_val \<rparr>)))))))))))))"

section \<open>Evaluating the threshold\<close>

text \<open>The scan of \<^verbatim>\<open>_compute_threshold_ok\<close>: the running maximum, left as soon as it
  reaches the threshold's level.\<close>

fun scan_max :: "int \<Rightarrow> int \<Rightarrow> DiagnosticOut list \<Rightarrow> int" where
  "scan_max th_val max_sev [] = max_sev"
| "scan_max th_val max_sev (d # ds) =
     (let m = max max_sev (severity_level d)
      in if m \<ge> th_val then m else scan_max th_val m ds)"

definition threshold_levels :: "string \<rightharpoonup> int" where
  "threshold_levels = [''information'' \<mapsto> 1, ''warning'' \<mapsto> 2, ''error'' \<mapsto> 3]"

definition breach_msg :: "string \<Rightarrow> int \<Rightarrow> string" where
  "breach_msg threshold max_sev =
     ''fail_on_severity '' @ [CHR 0x27] @ threshold @ [CHR 0x27]
       @ '' breached (max_severity_level='' @ str_int max_sev @ '').''"

definition compute_threshold_ok ::
  "DiagnosticOut list \<Rightarrow> string \<Rightarrow> error + (bool \<times> string option)" where
  "compute_threshold_ok diags threshold =
     (if threshold = ''none'' then Inr (True, None)
      else case threshold_levels threshold of
             None \<Rightarrow> Inl KeyError
           | Some th_val \<Rightarrow>
               (let max_sev = scan_max th_val 0 diags
                in if max_sev \<ge> th_val \<and> max_sev > 0
                   then Inr (False, Some (breach_msg threshold max_sev))
                   else Inr (True, None)))"

section \<open>Running a check\<close>

text \<open>Likewise for an optional string: \<^verbatim>\<open>if params.cwd:\<close> is \<open>opt_str cwd \<noteq> []\<close>.\<close>

definition opt_str :: "string option \<Rightarrow> string" where
  "opt_str so = (case so of None \<Rightarrow> [] | Some s \<Rightarrow> s)"

text \<open>Iterating a value in a comprehension: a list gives its items, a string its characters,
  a mapping its keys; nothing else can be iterated.\<close>

fun py_iter :: "json \<Rightarrow> error + json list" where
  "py_iter (JList xs) = Inr xs"
| "py_iter (JStr s) = Inr (map (\<lambda>c. JStr [c]) s)"
| "py_iter (JDict kvs) = Inr (map (\<lambda>kv. JStr (fst kv)) kvs)"
| "py_iter JNull = Inl TypeError"
| "py_iter (JBool b) = Inl TypeError"
| "py_iter (JInt n) = Inl TypeError"
| "py_iter (JFloat f) = Inl TypeError"

definition zero_summary :: SummaryOut where
  "zero_summary =
     \<lparr> files_analyzed = 0, error_count = 0, warning_count = 0, information_count = 0,
       time_sec = FloatVal 0 \<rparr>"

text \<open>The key of \<^verbatim>\<open>diags.sort\<close>: file, start line, start character. Python compares the
  tuples lexicographically, and its sort is stable, as \<open>sort_key\<close> is.\<close>

definition diag_key :: "DiagnosticOut \<Rightarrow> string \<times> int \<times> int" where
  "diag_key d = (filepath d, line (start (rng d)), character (start (rng d)))"

definition target_path :: "host \<Rightarrow> PyrightCheckParams \<Rightarrow> path" where
  "target_path h params = mk_path h (target params)"

text \<open>``Determine analysis root''\<close>

definition analyzed_root_of :: "host \<Rightarrow> PyrightCheckParams \<Rightarrow> error + path" where
  "analyzed_root_of h params =
     (if opt_str (cwd params) \<noteq> [] then resolve h (mk_path h (opt_str (cwd params)))
      else bind_err (is_dir h (target_path h params)) (\<lambda>d.
             if d then resolve h (target_path h params)
             else resolve h (path_parent (target_path h params))))"

definition root_for_globs :: "host \<Rightarrow> PyrightCheckParams \<Rightarrow> error + path" where
  "root_for_globs h params =
     bind_err (is_dir h (target_path h params)) (\<lambda>d.
       if d then resolve h (target_path h params)
       else resolve h (path_parent (target_path h params)))"

text \<open>
  The strings made from the expanded paths, for \<^verbatim>\<open>checked_paths\<close> and for the command
  line alike: with include globs \<^verbatim>\<open>[str(p) for p in sorted(set(paths))]\<close>, which sorts
  the path objects, and without them the resolved target alone.
\<close>

definition path_strings ::
  "host \<Rightarrow> PyrightCheckParams \<Rightarrow> path list \<Rightarrow> error + string list" where
  "path_strings h params paths =
     (if opt_list (include_globs params) \<noteq> []
      then Inr (map path_str (sort (remdups paths)))
      else bind_err (resolve h (target_path h params)) (\<lambda>t. Inr [path_str t]))"

text \<open>``Prepare list of paths we will check''\<close>

definition checked_paths_of :: "host \<Rightarrow> PyrightCheckParams \<Rightarrow> error + string list" where
  "checked_paths_of h params =
     bind_err (root_for_globs h params) (\<lambda>root_for_globs_checked.
     bind_err
       (iter_included_paths h root_for_globs_checked (include_globs params)
          (exclude_globs params))
       (path_strings h params))"

text \<open>``Build invocation'': the command line, once the executable is resolved.\<close>

definition build_cmd :: "host \<Rightarrow> PyrightCheckParams \<Rightarrow> error + string list" where
  "build_cmd h params =
     (let argv = fst (build_pyright_argv h) @ [''--outputjson''] @ opt_list (extra_args params)
      in bind_err (root_for_globs h params) (\<lambda>rootp.
         bind_err
           (iter_included_paths h rootp (include_globs params) (exclude_globs params))
           (\<lambda>paths.
         bind_err (path_strings h params paths) (\<lambda>path_args.
           Inr (argv @ path_args)))))"

text \<open>``Normalize summary''\<close>

definition normalize_summary :: "host \<Rightarrow> json \<Rightarrow> error + SummaryOut" where
  "normalize_summary h parsed =
     bind_err (bind_err (dict_get parsed ''summary'' (JDict [])) (\<lambda>v. Inr (or_empty_dict v)))
       (\<lambda>summary_raw.
     bind_err (get_int h summary_raw ''filesAnalyzed'') (\<lambda>fa.
     bind_err (get_int h summary_raw ''errorCount'') (\<lambda>ec.
     bind_err (get_int h summary_raw ''warningCount'') (\<lambda>wc.
     bind_err (get_int h summary_raw ''informationCount'') (\<lambda>ic.
     bind_err (bind_err (dict_get summary_raw ''timeInSec'' (JFloat (FloatVal 0))) (py_float h))
       (\<lambda>ts.
     Inr \<lparr> files_analyzed = fa, error_count = ec, warning_count = wc,
           information_count = ic, time_sec = ts \<rparr>))))))"

text \<open>``Normalize diagnostics''\<close>

definition normalize_diagnostics :: "host \<Rightarrow> json \<Rightarrow> error + DiagnosticOut list" where
  "normalize_diagnostics h parsed =
     bind_err (dict_get parsed ''generalDiagnostics'' (JList [])) (\<lambda>gd.
     bind_err (py_iter (if truthy gd then gd else JList [])) (\<lambda>diags_raw.
     bind_err (map_err (normalize_diag h) diags_raw) (\<lambda>diags.
     Inr (sort_key diag_key diags))))"

text \<open>The last part of \<^verbatim>\<open>run_check\<close>, once the output is parsed.\<close>

definition report_result ::
  "host \<Rightarrow> PyrightCheckParams \<Rightarrow> string list \<Rightarrow> int \<Rightarrow> json \<Rightarrow> string list \<Rightarrow> path
     \<Rightarrow> error + CheckResult" where
  "report_result h params cmd returncode parsed checked analyzed =
     bind_err (normalize_diagnostics h parsed) (\<lambda>diags.
     bind_err (normalize_summary h parsed) (\<lambda>summ.
     bind_err (compute_threshold_ok diags (fail_on_severity params)) (\<lambda>verdict.
     bind_err (dict_get parsed ''version'' JNull) (\<lambda>ver.
     Inr \<lparr> ok = fst verdict,
           fail_reason = snd verdict,
           command = cmd,
           exit_code = returncode,
           summary = summ,
           diagnostics = diags,
           pyright_version =
             (if truthy ver then py_str h ver else version (get_pyright_version h)),
           analyzed_root = path_str analyzed,
           checked_paths = checked,
           venv_path = detect_venv_path h \<rparr>))))"

text \<open>The result of every branch that stops before the output is parsed: no diagnostics
  and the zero summary.\<close>

definition failure_result ::
  "host \<Rightarrow> string \<Rightarrow> string list \<Rightarrow> int \<Rightarrow> string \<Rightarrow> path \<Rightarrow> string list \<Rightarrow> CheckResult" where
  "failure_result h reason cmd code_val ver analyzed checked =
     \<lparr> ok = False,
       fail_reason = Some reason,
       command = cmd,
       exit_code = code_val,
       summary = zero_summary,
       diagnostics = [],
       pyright_version = ver,
       analyzed_root = path_str analyzed,
       checked_paths = checked,
       venv_path = detect_venv_path h \<rparr>"

definition msg_not_available :: string where
  "msg_not_available =
     ''Pyright not available (neither 'pyright' executable nor 'python -m pyright'). ''
     @ ''Install via pipx: 'pipx install pyright-mcp' (bundles pyright), ''
     @ ''or add pyright to your environment.''"

definition msg_timeout :: "int \<Rightarrow> string" where
  "msg_timeout t =
     ''Timeout after '' @ str_int t @ ''s while running Pyright. ''
     @ ''Try increasing timeout_sec, reducing include scope, or enabling Pyright caching.''"

definition msg_spawn :: string where
  "msg_spawn = ''Failed to execute Pyright. Ensure 'pyright' is installed and on PATH.''"

definition msg_parse :: "host \<Rightarrow> string \<Rightarrow> string \<Rightarrow> string" where
  "msg_parse h out err =
     (let tail = str_strip h (out @ [CHR 0x0A] @ err);
          tail_excerpt = (if str_len h tail > 1000 then str_last h 1000 tail else tail)
      in ''Failed to parse Pyright JSON output. Consider upgrading Pyright or ''
         @ ''checking CLI arguments. Output tail:'' @ [CHR 0x0A] @ tail_excerpt)"

text \<open>The part of \<^verbatim>\<open>run_check\<close> from the resolution of the executable on, given the
  analysis root and the checked paths.\<close>

definition launch_check ::
  "host \<Rightarrow> PyrightCheckParams \<Rightarrow> path \<Rightarrow> string list \<Rightarrow> error + CheckResult" where
  "launch_check h params analyzed checked =
     (if fst (build_pyright_argv h) = [] then
        Inr (failure_result h msg_not_available [] (- 1) [] analyzed checked)
      else
        bind_err (build_cmd h params) (\<lambda>cmd.
        case subprocess_run h cmd (path_str analyzed) (timeout_sec params) of
          TimeoutExpired \<Rightarrow>
            Inr (failure_result h (msg_timeout (timeout_sec params)) cmd (- 1)
                   (version (get_pyright_version h)) analyzed checked)
        | FileNotFoundError \<Rightarrow>
            Inr (failure_result h msg_spawn cmd (- 1)
                   (version (get_pyright_version h)) analyzed checked)
        | ProcRaised e \<Rightarrow> Inl e
        | Completed returncode out err \<Rightarrow>
            (case parse_pyright_json h out of
               None \<Rightarrow>
                 Inr (failure_result h (msg_parse h out err) cmd returncode
                        (version (get_pyright_version h)) analyzed checked)
             | Some parsed \<Rightarrow>
                 report_result h params cmd returncode parsed checked analyzed)))"

text \<open>\<^verbatim>\<open>PyrightRunner.run_check\<close>. Neither the existence test nor the resolution of the
  analysis root stands in a \<^verbatim>\<open>try\<close>: what they raise escapes.\<close>

definition run_check :: "host \<Rightarrow> PyrightCheckParams \<Rightarrow> error + CheckResult" where
  "run_check h params =
     bind_err (path_exists h (target_path h params)) (\<lambda>found.
       if \<not> found then
         bind_err
           (resolve h
              (if opt_str (cwd params) \<noteq> [] then mk_path h (opt_str (cwd params))
               else path_parent (target_path h params)))
           (\<lambda>analyzed.
              Inr (failure_result h
                     (''Target path not found: '' @ path_str (target_path h params))
                     [] 4 (version (get_pyright_version h)) analyzed []))
       else
         bind_err (analyzed_root_of h params) (\<lambda>analyzed.
         bind_err (checked_paths_of h params) (\<lambda>checked.
           launch_check h params analyzed checked)))"

section \<open>A sample host and sample inputs\<close>


text \<open>\<^verbatim>\<open>s.split(c)\<close>\<close>

fun split_on :: "char \<Rightarrow> string \<Rightarrow> string list" where
  "split_on c [] = [[]]"
| "split_on c (x # xs) =
     (if x = c then [] # split_on c xs
      else case split_on c xs of [] \<Rightarrow> [[x]] | w # ws \<Rightarrow> (x # w) # ws)"

text \<open>\<^verbatim>\<open>Path(s)\<close> on a POSIX system: the root if the string starts with a slash, then the
  components between slashes, the empty ones and \<^verbatim>\<open>.\<close> dropped.\<close>

definition posix_path :: "string \<Rightarrow> path" where
  "posix_path s =
     (let comps = filter (\<lambda>w. w \<noteq> [] \<and> w \<noteq> ''.'') (split_on (CHR ''/'') s)
      in if take 1 s = ''/''
         then (if take 2 s = ''//'' \<and> take 3 s \<noteq> ''///'' then ''//'' else ''/'') # comps
         else comps)"

text \<open>
  A small file system: the directory \<^verbatim>\<open>/r/proj\<close> holds the package \<^verbatim>\<open>a\<close> and the
  directory \<^verbatim>\<open>a.b\<close>, with one module each. There are no symbolic links and every path
  is absolute, so resolving a path changes nothing, except that a path with a NUL byte
  cannot be resolved. A pattern without wildcards matches
  its own text only. The conversions that the sample inputs never reach (rendering a
  value that is not a string, reading a number from a string) are left trivial.
\<close>

definition demo_files :: "path list" where
  "demo_files =
     [[''/'', ''r'', ''proj'', ''a.b'', ''x.py''],
      [''/'', ''r'', ''proj'', ''a'', ''x.py'']]"

definition demo_dirs :: "path list" where
  "demo_dirs =
     [[''/''], [''/'', ''r''], [''/'', ''r'', ''proj''],
      [''/'', ''r'', ''proj'', ''a''], [''/'', ''r'', ''proj'', ''a.b'']]"

text \<open>The checker's report in the sample run, as decoded: two diagnostics of one file, the
  later position first, and a summary that counts five errors.\<close>

definition demo_report :: json where
  "demo_report =
     JDict
       [(''version'', JStr ''1.1.405''),
        (''generalDiagnostics'',
           JList
             [JDict
                [(''file'', JStr ''/r/proj/a/x.py''),
                 (''severity'', JStr ''error''),
                 (''message'', JStr ''Type mismatch''),
                 (''range'',
                    JDict [(''start'', JDict [(''line'', JInt 3), (''character'', JInt 4)]),
                           (''end'', JDict [(''line'', JInt 3), (''character'', JInt 9)])]),
                 (''rule'', JStr ''reportAssignmentType'')],
              JDict
                [(''file'', JStr ''/r/proj/a/x.py''),
                 (''severity'', JStr ''warning''),
                 (''message'', JStr ''Unused import''),
                 (''range'',
                    JDict [(''start'', JDict [(''line'', JInt 1), (''character'', JInt 0)]),
                           (''end'', JDict [(''line'', JInt 1), (''character'', JInt 6)])])]]),
        (''summary'',
           JDict
             [(''filesAnalyzed'', JInt 2), (''errorCount'', JInt 5), (''warningCount'', JInt 1),
              (''informationCount'', JInt 0), (''timeInSec'', JFloat (FloatVal (1 / 2)))])]"

text \<open>The text of that report, as the subprocess writes it to its standard output.\<close>

definition demo_output :: string where
  \<open>demo_output =
     ''{"version": "1.1.405", "generalDiagnostics": [''
     @ ''{"file": "/r/proj/a/x.py", "severity": "error", "message": "Type mismatch", ''
     @ ''"range": {"start": {"line": 3, "character": 4}, "end": {"line": 3, "character": 9}}, ''
     @ ''"rule": "reportAssignmentType"}, ''
     @ ''{"file": "/r/proj/a/x.py", "severity": "warning", "message": "Unused import", ''
     @ ''"range": {"start": {"line": 1, "character": 0}, "end": {"line": 1, "character": 6}}}], ''
     @ ''"summary": {"filesAnalyzed": 2, "errorCount": 5, "warningCount": 1, ''
     @ ''"informationCount": 0, "timeInSec": 0.5}}''\<close>

definition demo_host :: host where
  "demo_host =
     \<lparr> json_loads = (\<lambda>t. if t = demo_output then Some demo_report else None),
       py_repr = (\<lambda>v. []),
       int_of_str = (\<lambda>s. None),
       float_of_int = (\<lambda>n. Inr (FloatVal (of_int n))),
       float_of_str = (\<lambda>s. None),
       str_strip = (\<lambda>s. s),
       str_len = length,
       str_last = (\<lambda>n s. drop (length s - n) s),
       mk_path = posix_path,
       path_exists = (\<lambda>p. Inr (p \<in> set demo_dirs \<or> p \<in> set demo_files)),
       is_dir = (\<lambda>p. Inr (p \<in> set demo_dirs)),
       is_file = (\<lambda>p. Inr (p \<in> set demo_files)),
       resolve = (\<lambda>p. if list_ex (\<lambda>part. CHR 0x00 \<in> set part) p then Inl ValueError
                      else Inr p),
       glob = (\<lambda>rootp pat.
                 if rootp = [''/'', ''r'', ''proj''] \<and> pat = ''**/*.py'' then Inr demo_files
                 else Inr []),
       rglob_all = (\<lambda>p. Inr (filter (strict_prefix p) (demo_dirs @ demo_files))),
       fnmatch = (\<lambda>name pat. name = pat),
       set_order = remdups,
       detect_venv_path = ''/venv'',
       build_pyright_argv = ([''/usr/bin/pyright''], ''/usr/bin/pyright''),
       get_pyright_version =
         \<lparr> version = ''1.1.405'', executable_path = ''/usr/bin/pyright'',
           supports_outputjson = True \<rparr>,
       subprocess_run = (\<lambda>cmd wd t. Completed 1 demo_output []) \<rparr>"

definition demo_params :: PyrightCheckParams where
  "demo_params =
     \<lparr> target = ''/r/proj'', cwd = None, include_globs = Some [''**/*.py''],
       exclude_globs = None, extra_args = None, timeout_sec = 60,
       fail_on_severity = ''information'' \<rparr>"

definition info_diag :: DiagnosticOut where
  "info_diag =
     \<lparr> filepath = ''/r/proj/a/x.py'',
       rng = \<lparr> start = \<lparr> line = 0, character = 0 \<rparr>, endpos = \<lparr> line = 0, character = 1 \<rparr> \<rparr>,
       severity = ''information'', severity_level = 1, message = ''Note'',
       code = None, rule = None \<rparr>"

definition error_diag :: DiagnosticOut where
  "error_diag =
     \<lparr> filepath = ''/r/proj/a/x.py'',
       rng = \<lparr> start = \<lparr> line = 3, character = 4 \<rparr>, endpos = \<lparr> line = 3, character = 9 \<rparr> \<rparr>,
       severity = ''error'', severity_level = 3, message = ''Type mismatch'',
       code = Some ''reportAssignmentType'', rule = Some ''reportAssignmentType'' \<rparr>"

text \<open>What the sample run returns.\<close>

definition demo_result :: CheckResult where
  "demo_result =
     \<lparr> ok = False,
       fail_reason = Some (breach_msg ''information'' 2),
       command =
         [''/usr/bin/pyright'', ''--outputjson'', ''/r/proj/a/x.py'', ''/r/proj/a.b/x.py''],
       exit_code = 1,
       summary =
         \<lparr> files_analyzed = 2, error_count = 5, warning_count = 1, information_count = 0,
           time_sec = FloatVal (1 / 2) \<rparr>,
       diagnostics =
         [\<lparr> filepath = ''/r/proj/a/x.py'',
            rng = \<lparr> start = \<lparr> line = 1, character = 0 \<rparr>,
                    endpos = \<lparr> line = 1, character = 6 \<rparr> \<rparr>,
            severity = ''warning'', severity_level = 2, message = ''Unused import'',
            code = None, rule = None \<rparr>,
          error_diag],
       pyright_version = ''1.1.405'',
       analyzed_root = ''/r/proj'',
       checked_paths = [''/r/proj/a/x.py'', ''/r/proj/a.b/x.py''],
       venv_path = ''/venv'' \<rparr>"


text \<open>Two raw diagnostics: one whose rule is the empty string, one whose start line is
  \<^verbatim>\<open>null\<close>.\<close>

definition raw_empty_rule :: json where
  "raw_empty_rule =
     JDict [(''file'', JStr ''/r/proj/a/x.py''), (''severity'', JStr ''error''),
            (''message'', JStr ''Type mismatch''), (''rule'', JStr [])]"

definition raw_null_line :: json where
  "raw_null_line =
     JDict [(''file'', JStr ''/r/proj/a/x.py''), (''severity'', JStr ''error''),
            (''message'', JStr ''Type mismatch''),
            (''range'',
               JDict [(''start'', JDict [(''line'', JNull), (''character'', JInt 4)]),
                      (''end'', JDict [(''line'', JInt 3), (''character'', JInt 9)])])]"



text \<open>The sample request without include globs and with an exclude glob that matches the
  name of the target, and what the run returns for it.\<close>

definition exclude_params :: PyrightCheckParams where
  "exclude_params = demo_params \<lparr> include_globs := None, exclude_globs := Some [''proj''] \<rparr>"

definition exclude_result :: CheckResult where
  "exclude_result =
     demo_result \<lparr> command := [''/usr/bin/pyright'', ''--outputjson'', ''/r/proj''],
                   checked_paths := [''/r/proj''] \<rparr>"

text \<open>Two reports whose error count is not an integer: one and a half, and \<^verbatim>\<open>null\<close>.\<close>

definition float_count_report :: json where
  "float_count_report =
     JDict [(''generalDiagnostics'', JList []),
            (''summary'',
               JDict [(''filesAnalyzed'', JInt 1), (''errorCount'', JFloat (FloatVal (3 / 2))),
                      (''warningCount'', JInt 0), (''informationCount'', JInt 0),
                      (''timeInSec'', JFloat (FloatVal (1 / 2)))])]"

definition null_count_report :: json where
  "null_count_report =
     JDict [(''generalDiagnostics'', JList []),
            (''summary'',
               JDict [(''filesAnalyzed'', JInt 1), (''errorCount'', JNull),
                      (''warningCount'', JInt 0), (''informationCount'', JInt 0),
                      (''timeInSec'', JFloat (FloatVal (1 / 2)))])]"

section \<open>Auxiliary facts\<close>

lemma bind_err_Inr_iff:
  "bind_err m f = Inr y \<longleftrightarrow> (\<exists>x. m = Inr x \<and> f x = Inr y)"
  by (cases m) (simp_all add: bind_err_def)

lemma bind_err_Inr [simp]: "bind_err (Inr x) f = f x"
  by (simp add: bind_err_def)

lemma bind_err_Inl [simp]: "bind_err (Inl e) f = Inl e"
  by (simp add: bind_err_def)

lemma dict_get_Inr_dict: "dict_get d k dflt = Inr v \<Longrightarrow> \<exists>kvs. d = JDict kvs"
  by (cases d) simp_all

lemma get_or_empty_JDict:
  "get_or_empty (JDict kvs) k =
     Inr (or_empty_dict (case map_of kvs k of None \<Rightarrow> JNull | Some v \<Rightarrow> v))"
  by (simp add: get_or_empty_def)

lemma get_or_empty_absent:
  "map_of kvs k = None \<Longrightarrow> get_or_empty (JDict kvs) k = Inr (JDict [])"
  by (simp add: get_or_empty_JDict or_empty_dict_def)

lemma get_int_JDict:
  "get_int h (JDict kvs) k = (case map_of kvs k of None \<Rightarrow> Inr 0 | Some v \<Rightarrow> py_int h v)"
  by (simp add: get_int_def split: option.splits)

lemma SEVERITY_LEVEL_sev_of_raw:
  "\<exists>l. SEVERITY_LEVEL (sev_of_raw v) = Some l"
  by (cases v) (simp_all add: sev_of_raw_def SEVERITY_LEVEL_def)

lemma SEVERITY_LEVEL_pairs:
  "SEVERITY_LEVEL s = Some l \<Longrightarrow>
     (s, l) \<in> {(''information'', 1), (''warning'', 2), (''error'', 3)}"
  by (auto simp: SEVERITY_LEVEL_def split: if_splits)

text \<open>What a successful normalization went through, step by step.\<close>

lemma normalize_diag_unfold:
  assumes "normalize_diag h d = Inr n"
  shows "\<exists>file_raw sev_raw rng_d start_d end_d file_res sl sc el ec lvl msg_raw rule_val.
           dict_get d ''file'' (JStr []) = Inr file_raw \<and>
           dict_get d ''severity'' (JStr ''information'') = Inr sev_raw \<and>
           get_or_empty d ''range'' = Inr rng_d \<and>
           get_or_empty rng_d ''start'' = Inr start_d \<and>
           get_or_empty rng_d ''end'' = Inr end_d \<and>
           resolve h (mk_path h (py_str h file_raw)) = Inr file_res \<and>
           get_int h start_d ''line'' = Inr sl \<and>
           get_int h start_d ''character'' = Inr sc \<and>
           get_int h end_d ''line'' = Inr el \<and>
           get_int h end_d ''character'' = Inr ec \<and>
           (case SEVERITY_LEVEL (sev_of_raw sev_raw) of
              None \<Rightarrow> Inl KeyError
            | Some l \<Rightarrow> Inr l) = Inr lvl \<and>
           dict_get d ''message'' (JStr []) = Inr msg_raw \<and>
           dict_get d ''rule'' JNull = Inr rule_val \<and>
           Inr \<lparr> filepath = path_str file_res,
                 rng = \<lparr> start = \<lparr> line = sl, character = sc \<rparr>,
                         endpos = \<lparr> line = el, character = ec \<rparr> \<rparr>,
                 severity = sev_of_raw sev_raw,
                 severity_level = lvl,
                 message = py_str h msg_raw,
                 code = rule_of_raw rule_val,
                 rule = rule_of_raw rule_val \<rparr> = (Inr n :: error + DiagnosticOut)"
  using assms unfolding normalize_diag_def bind_err_Inr_iff
  by (elim exE conjE) (intro exI conjI; assumption)

lemma normalize_diag_level:
  assumes "normalize_diag h d = Inr n"
  shows "SEVERITY_LEVEL (severity n) = Some (severity_level n)"
proof -
  from normalize_diag_unfold [OF assms] obtain sev_raw lvl where
    l: "(case SEVERITY_LEVEL (sev_of_raw sev_raw) of None \<Rightarrow> Inl KeyError | Some l \<Rightarrow> Inr l)
          = (Inr lvl :: error + int)"
    and s: "severity n = sev_of_raw sev_raw" and v: "severity_level n = lvl"
    by auto
  from l have "SEVERITY_LEVEL (sev_of_raw sev_raw) = Some lvl"
    by (simp split: option.splits)
  with s v show ?thesis by simp
qed

lemma normalize_diag_code_rule:
  assumes "normalize_diag h d = Inr n"
  shows "code n = rule n"
  using normalize_diag_unfold [OF assms] by auto

lemma map_err_Inr_set:
  "map_err f xs = Inr ys \<Longrightarrow> y \<in> set ys \<Longrightarrow> \<exists>x \<in> set xs. f x = Inr y"
proof (induction xs arbitrary: ys)
  case Nil
  then show ?case by simp
next
  case (Cons x xs)
  from Cons.prems(1) obtain z zs where
    z: "f x = Inr z" and zs: "map_err f xs = Inr zs" and ys: "ys = z # zs"
    by (auto simp: bind_err_Inr_iff)
  show ?case
  proof (cases "y = z")
    case True
    with z show ?thesis by auto
  next
    case False
    with Cons.prems(2) ys have "y \<in> set zs" by simp
    from Cons.IH [OF zs this] show ?thesis by auto
  qed
qed

lemma normalize_diagnostics_Inr:
  assumes "normalize_diagnostics h parsed = Inr ds"
  shows "\<exists>raws ds0. map_err (normalize_diag h) raws = Inr ds0 \<and> ds = sort_key diag_key ds0"
  using assms unfolding normalize_diagnostics_def bind_err_Inr_iff by auto

lemma report_result_Inr:
  assumes "report_result h params cmd rc parsed checked analyzed = Inr r"
  shows "\<exists>ds s v.
           normalize_diagnostics h parsed = Inr ds \<and>
           normalize_summary h parsed = Inr s \<and>
           compute_threshold_ok ds (fail_on_severity params) = Inr v \<and>
           diagnostics r = ds \<and> summary r = s \<and> ok r = fst v \<and> fail_reason r = snd v \<and>
           command r = cmd \<and> exit_code r = rc \<and> checked_paths r = checked"
  using assms unfolding report_result_def bind_err_Inr_iff by auto

lemma failure_result_fields [simp]:
  "ok (failure_result h reason cmd c ver analyzed checked) = False"
  "fail_reason (failure_result h reason cmd c ver analyzed checked) = Some reason"
  "command (failure_result h reason cmd c ver analyzed checked) = cmd"
  "exit_code (failure_result h reason cmd c ver analyzed checked) = c"
  "summary (failure_result h reason cmd c ver analyzed checked) = zero_summary"
  "diagnostics (failure_result h reason cmd c ver analyzed checked) = []"
  "checked_paths (failure_result h reason cmd c ver analyzed checked) = checked"
  by (simp_all add: failure_result_def)

text \<open>The two branches of \<^verbatim>\<open>run_check\<close>.\<close>

lemma run_check_missing:
  assumes "path_exists h (target_path h params) = Inr False"
  shows "run_check h params =
           bind_err
             (resolve h
                (if opt_str (cwd params) \<noteq> [] then mk_path h (opt_str (cwd params))
                 else path_parent (target_path h params)))
             (\<lambda>analyzed.
                Inr (failure_result h
                       (''Target path not found: '' @ path_str (target_path h params))
                       [] 4 (version (get_pyright_version h)) analyzed []))"
  using assms by (simp add: run_check_def)

lemma run_check_exists:
  assumes "path_exists h (target_path h params) = Inr True"
  shows "run_check h params =
           bind_err (analyzed_root_of h params) (\<lambda>analyzed.
           bind_err (checked_paths_of h params) (\<lambda>checked.
             launch_check h params analyzed checked))"
  using assms by (simp add: run_check_def)

text \<open>What a result of the launch is: built by one of the failure branches, with the command
  line if there is one, or built from a parsed report.\<close>

lemma launch_check_Inr:
  assumes "launch_check h params analyzed checked = Inr r"
  shows "(fst (build_pyright_argv h) = [] \<and>
          r = failure_result h msg_not_available [] (- 1) [] analyzed checked)
         \<or> (fst (build_pyright_argv h) \<noteq> [] \<and>
             (\<exists>cmd. build_cmd h params = Inr cmd \<and>
                ((\<exists>reason c ver. r = failure_result h reason cmd c ver analyzed checked)
                 \<or> (\<exists>rc out err parsed.
                       subprocess_run h cmd (path_str analyzed) (timeout_sec params)
                         = Completed rc out err \<and>
                       parse_pyright_json h out = Some parsed \<and>
                       report_result h params cmd rc parsed checked analyzed = Inr r))))"
proof (cases "fst (build_pyright_argv h) = []")
  case True
  with assms show ?thesis by (simp add: launch_check_def)
next
  case False
  with assms obtain cmd where
    b: "build_cmd h params = Inr cmd" and
    k: "(case subprocess_run h cmd (path_str analyzed) (timeout_sec params) of
          TimeoutExpired \<Rightarrow>
            Inr (failure_result h (msg_timeout (timeout_sec params)) cmd (- 1)
                   (version (get_pyright_version h)) analyzed checked)
        | FileNotFoundError \<Rightarrow>
            Inr (failure_result h msg_spawn cmd (- 1)
                   (version (get_pyright_version h)) analyzed checked)
        | ProcRaised e \<Rightarrow> Inl e
        | Completed returncode out err \<Rightarrow>
            (case parse_pyright_json h out of
               None \<Rightarrow>
                 Inr (failure_result h (msg_parse h out err) cmd returncode
                        (version (get_pyright_version h)) analyzed checked)
             | Some parsed \<Rightarrow>
                 report_result h params cmd returncode parsed checked analyzed)) = Inr r"
    by (auto simp: launch_check_def bind_err_Inr_iff)
  have "(\<exists>reason c ver. r = failure_result h reason cmd c ver analyzed checked)
        \<or> (\<exists>rc out err parsed.
              subprocess_run h cmd (path_str analyzed) (timeout_sec params)
                = Completed rc out err \<and>
              parse_pyright_json h out = Some parsed \<and>
              report_result h params cmd rc parsed checked analyzed = Inr r)"
  proof (cases "subprocess_run h cmd (path_str analyzed) (timeout_sec params)")
    case (Completed rc out err)
    show ?thesis
    proof (cases "parse_pyright_json h out")
      case None
      with k Completed have
        "r = failure_result h (msg_parse h out err) cmd rc
               (version (get_pyright_version h)) analyzed checked"
        by simp
      then show ?thesis by blast
    next
      case (Some parsed)
      with k Completed have
        "report_result h params cmd rc parsed checked analyzed = Inr r"
        by simp
      with Completed Some show ?thesis by blast
    qed
  next
    case TimeoutExpired
    with k have "r = failure_result h (msg_timeout (timeout_sec params)) cmd (- 1)
                       (version (get_pyright_version h)) analyzed checked"
      by simp
    then show ?thesis by blast
  next
    case FileNotFoundError
    with k have "r = failure_result h msg_spawn cmd (- 1)
                       (version (get_pyright_version h)) analyzed checked"
      by simp
    then show ?thesis by blast
  next
    case (ProcRaised e)
    with k show ?thesis by simp
  qed
  with False b show ?thesis by blast
qed

text \<open>Every result either comes from a branch that reports no diagnostics, or was built
  from a parsed report.\<close>

lemma run_check_Inr_cases:
  assumes "run_check h params = Inr r"
  shows "(\<exists>reason cmd c ver analyzed checked.
            r = failure_result h reason cmd c ver analyzed checked)
         \<or> (\<exists>cmd rc parsed checked analyzed.
               report_result h params cmd rc parsed checked analyzed = Inr r)"
proof -
  from assms obtain found where f: "path_exists h (target_path h params) = Inr found"
    unfolding run_check_def bind_err_Inr_iff by blast
  show ?thesis
  proof (cases found)
    case False
    with f assms obtain analyzed where
      "r = failure_result h
             (''Target path not found: '' @ path_str (target_path h params))
             [] 4 (version (get_pyright_version h)) analyzed []"
      by (auto simp: run_check_missing bind_err_Inr_iff)
    then show ?thesis by blast
  next
    case True
    with f assms obtain analyzed checked where
      "launch_check h params analyzed checked = Inr r"
      by (auto simp: run_check_exists bind_err_Inr_iff)
    from launch_check_Inr [OF this] show ?thesis by blast
  qed
qed

lemma run_check_diagnostics:
  assumes "run_check h params = Inr r"
  shows "\<exists>raws ds0. map_err (normalize_diag h) raws = Inr ds0
                    \<and> diagnostics r = sort_key diag_key ds0"
  using run_check_Inr_cases [OF assms]
proof (elim disjE exE)
  fix reason cmd c ver analyzed checked
  assume "r = failure_result h reason cmd c ver analyzed checked"
  then have "map_err (normalize_diag h) [] = Inr [] \<and> diagnostics r = sort_key diag_key []"
    by simp
  then show ?thesis by blast
next
  fix cmd rc parsed checked analyzed
  assume "report_result h params cmd rc parsed checked analyzed = Inr r"
  from report_result_Inr [OF this] normalize_diagnostics_Inr show ?thesis by metis
qed

section \<open>The sample run, evaluated\<close>

lemma demo_host_fields:
  "json_loads demo_host = (\<lambda>t. if t = demo_output then Some demo_report else None)"
  "mk_path demo_host = posix_path"
  "path_exists demo_host = (\<lambda>p. Inr (p \<in> set demo_dirs \<or> p \<in> set demo_files))"
  "is_dir demo_host = (\<lambda>p. Inr (p \<in> set demo_dirs))"
  "is_file demo_host = (\<lambda>p. Inr (p \<in> set demo_files))"
  "resolve demo_host =
     (\<lambda>p. if list_ex (\<lambda>part. CHR 0x00 \<in> set part) p then Inl ValueError else Inr p)"
  "fnmatch demo_host = (\<lambda>name pat. name = pat)"
  "set_order demo_host = remdups"
  "detect_venv_path demo_host = ''/venv''"
  "build_pyright_argv demo_host = ([''/usr/bin/pyright''], ''/usr/bin/pyright'')"
  "version (get_pyright_version demo_host) = ''1.1.405''"
  "subprocess_run demo_host = (\<lambda>cmd wd t. Completed 1 demo_output [])"
  by (simp_all add: demo_host_def)

lemma demo_params_fields:
  "target demo_params = ''/r/proj''"
  "cwd demo_params = None"
  "include_globs demo_params = Some [''**/*.py'']"
  "exclude_globs demo_params = None"
  "extra_args demo_params = None"
  "timeout_sec demo_params = 60"
  "fail_on_severity demo_params = ''information''"
  by (simp_all add: demo_params_def)

lemma demo_resolve_proj:
  "resolve demo_host [''/'', ''r'', ''proj''] = Inr [''/'', ''r'', ''proj'']"
  by (simp add: demo_host_fields)

lemma demo_iter:
  "iter_included_paths demo_host [''/'', ''r'', ''proj''] (Some [''**/*.py'']) None
     = Inr demo_files"
  by (simp add: iter_included_paths_def opt_list_def demo_host_def expand_match_def
      demo_files_def)

lemma demo_norm:
  "normalize_diagnostics demo_host demo_report = Inr (diagnostics demo_result)"
  by (simp add: normalize_diagnostics_def demo_report_def normalize_diag_def
      get_or_empty_def get_int_def or_empty_dict_def sev_of_raw_def rule_of_raw_def
      SEVERITY_LEVEL_def py_str_def demo_host_def posix_path_def path_str_def is_root_part_def
      diag_key_def demo_result_def error_diag_def)

lemma demo_target: "target_path demo_host demo_params = [''/'', ''r'', ''proj'']"
  by (simp add: target_path_def demo_host_fields demo_params_fields posix_path_def)

lemma demo_exists: "path_exists demo_host (target_path demo_host demo_params) = Inr True"
  by (simp add: demo_target demo_host_fields demo_dirs_def)

lemma demo_is_dir: "is_dir demo_host [''/'', ''r'', ''proj''] = Inr True"
  by (simp add: demo_host_fields demo_dirs_def)

lemma demo_root: "root_for_globs demo_host demo_params = Inr [''/'', ''r'', ''proj'']"
  by (simp add: root_for_globs_def demo_target demo_is_dir demo_resolve_proj)

lemma demo_analyzed: "analyzed_root_of demo_host demo_params = Inr [''/'', ''r'', ''proj'']"
  by (simp add: analyzed_root_of_def demo_target demo_is_dir demo_resolve_proj
      demo_params_fields opt_str_def)

lemma demo_path_strings:
  "path_strings demo_host demo_params demo_files
     = Inr [''/r/proj/a/x.py'', ''/r/proj/a.b/x.py'']"
  by (simp add: path_strings_def demo_params_fields opt_list_def demo_files_def path_str_def
      is_root_part_def)

lemma demo_checked:
  "checked_paths_of demo_host demo_params = Inr [''/r/proj/a/x.py'', ''/r/proj/a.b/x.py'']"
  by (simp add: checked_paths_of_def demo_root demo_params_fields demo_iter demo_path_strings)

lemma demo_argv: "fst (build_pyright_argv demo_host) = [''/usr/bin/pyright'']"
  by (simp add: demo_host_fields)

lemma demo_cmd:
  "build_cmd demo_host demo_params =
     Inr [''/usr/bin/pyright'', ''--outputjson'', ''/r/proj/a/x.py'', ''/r/proj/a.b/x.py'']"
  by (simp add: build_cmd_def demo_root demo_params_fields demo_iter demo_path_strings
      opt_list_def demo_argv)

lemma demo_summary:
  "normalize_summary demo_host demo_report = Inr (summary demo_result)"
  by (simp add: normalize_summary_def demo_report_def get_int_def or_empty_dict_def
      demo_result_def)

lemma demo_verdict:
  "compute_threshold_ok (diagnostics demo_result) ''information''
     = Inr (False, Some (breach_msg ''information'' 2))"
  by (simp add: compute_threshold_ok_def threshold_levels_def demo_result_def error_diag_def)

lemma demo_parse: "parse_pyright_json demo_host demo_output = Some demo_report"
  by (simp add: parse_pyright_json_def demo_host_fields) (simp add: demo_report_def)

lemma demo_subprocess:
  "subprocess_run demo_host cmd wd t = Completed 1 demo_output []"
  by (simp add: demo_host_fields)

lemma demo_report_result:
  "report_result demo_host demo_params
     [''/usr/bin/pyright'', ''--outputjson'', ''/r/proj/a/x.py'', ''/r/proj/a.b/x.py'']
     1 demo_report [''/r/proj/a/x.py'', ''/r/proj/a.b/x.py''] [''/'', ''r'', ''proj'']
   = Inr demo_result"
  unfolding report_result_def demo_norm demo_summary
  by (simp add: demo_verdict demo_params_fields)
     (simp add: demo_report_def py_str_def demo_result_def demo_host_fields path_str_def
        is_root_part_def)

lemma demo_run: "run_check demo_host demo_params = Inr demo_result"
  by (simp add: run_check_exists [OF demo_exists] demo_analyzed demo_checked launch_check_def
      demo_argv demo_cmd demo_subprocess demo_parse demo_report_result)

text \<open>The sample run without include globs.\<close>

lemma exclude_params_fields:
  "target exclude_params = ''/r/proj''"
  "cwd exclude_params = None"
  "include_globs exclude_params = None"
  "exclude_globs exclude_params = Some [''proj'']"
  "extra_args exclude_params = None"
  "timeout_sec exclude_params = 60"
  "fail_on_severity exclude_params = ''information''"
  by (simp_all add: exclude_params_def demo_params_def)

lemma exclude_target: "target_path demo_host exclude_params = [''/'', ''r'', ''proj'']"
  by (simp add: target_path_def demo_host_fields exclude_params_fields posix_path_def)

lemma exclude_exists: "path_exists demo_host (target_path demo_host exclude_params) = Inr True"
  by (simp add: exclude_target demo_host_fields demo_dirs_def)

lemma exclude_root: "root_for_globs demo_host exclude_params = Inr [''/'', ''r'', ''proj'']"
  by (simp add: root_for_globs_def exclude_target demo_is_dir demo_resolve_proj)

lemma exclude_analyzed:
  "analyzed_root_of demo_host exclude_params = Inr [''/'', ''r'', ''proj'']"
  by (simp add: analyzed_root_of_def exclude_target demo_is_dir demo_resolve_proj
      exclude_params_fields opt_str_def)

lemma exclude_iter:
  "iter_included_paths demo_host [''/'', ''r'', ''proj''] None (Some [''proj'']) = Inr []"
  by (simp add: iter_included_paths_def opt_list_def excluded_def relative_to_def
      path_str_def path_name_def replace_backslash_def is_root_part_def demo_host_fields)

lemma exclude_path_strings:
  "path_strings demo_host exclude_params paths = Inr [''/r/proj'']"
  by (simp add: path_strings_def exclude_params_fields opt_list_def exclude_target
      demo_resolve_proj path_str_def is_root_part_def)

lemma exclude_checked: "checked_paths_of demo_host exclude_params = Inr [''/r/proj'']"
  by (simp add: checked_paths_of_def exclude_root exclude_params_fields exclude_iter
      exclude_path_strings)

lemma exclude_cmd:
  "build_cmd demo_host exclude_params
     = Inr [''/usr/bin/pyright'', ''--outputjson'', ''/r/proj'']"
  by (simp add: build_cmd_def exclude_root exclude_params_fields exclude_iter
      exclude_path_strings opt_list_def demo_argv)

lemma exclude_report_result:
  "report_result demo_host exclude_params
     [''/usr/bin/pyright'', ''--outputjson'', ''/r/proj'']
     1 demo_report [''/r/proj''] [''/'', ''r'', ''proj'']
   = Inr exclude_result"
  unfolding report_result_def demo_norm demo_summary
  by (simp add: demo_verdict exclude_params_fields)
     (simp add: demo_report_def py_str_def exclude_result_def demo_result_def demo_host_fields
        path_str_def is_root_part_def)

lemma exclude_run: "run_check demo_host exclude_params = Inr exclude_result"
  by (simp add: run_check_exists [OF exclude_exists] exclude_analyzed exclude_checked
      launch_check_def demo_argv exclude_cmd demo_subprocess demo_parse exclude_report_result)

section \<open>The threshold\<close>

lemma threshold_levels_cases:
  "threshold_levels t = Some lvl \<Longrightarrow>
     (t = ''information'' \<and> lvl = 1) \<or> (t = ''warning'' \<and> lvl = 2)
       \<or> (t = ''error'' \<and> lvl = 3)"
  by (auto simp: threshold_levels_def split: if_splits)

lemma scan_max_find:
  "m < th \<Longrightarrow> find (\<lambda>d. th \<le> severity_level d) ds = Some d \<Longrightarrow>
   scan_max th m ds = severity_level d"
  by (induction ds arbitrary: m) (auto simp: Let_def max_def split: if_splits)

lemma scan_max_none_less:
  "m < th \<Longrightarrow> find (\<lambda>d. th \<le> severity_level d) ds = None \<Longrightarrow> scan_max th m ds < th"
  by (induction ds arbitrary: m) (auto simp: Let_def max_def split: if_splits)

lemma find_level_Max:
  "find (\<lambda>d. th \<le> severity_level d) ds \<noteq> None \<longleftrightarrow>
     ds \<noteq> [] \<and> th \<le> Max (severity_level ` set ds)"
proof (cases "ds = []")
  case True
  then show ?thesis by simp
next
  case False
  then have "(\<exists>d\<in>set ds. th \<le> severity_level d) \<longleftrightarrow> th \<le> Max (severity_level ` set ds)"
    by (subst Max_ge_iff) auto
  then show ?thesis using False by (auto simp: find_None_iff)
qed

text \<open>The verdict: with the threshold \<^verbatim>\<open>none\<close> it is ok without a reason, an empty list
  is ok under every threshold, and under any other threshold it is not-ok exactly when
  the maximum severity level over the diagnostics is non-zero and at least the threshold's
  level.\<close>

lemma threshold_verdict:
  assumes "threshold_levels threshold = Some lvl"
  shows "compute_threshold_ok diags ''none'' = Inr (True, None) \<and>
         compute_threshold_ok [] threshold = Inr (True, None) \<and>
         (\<exists>okv reason.
            compute_threshold_ok diags threshold = Inr (okv, reason) \<and>
            (\<not> okv \<longleftrightarrow>
               diags \<noteq> [] \<and> Max (severity_level ` set diags) \<noteq> 0
                 \<and> lvl \<le> Max (severity_level ` set diags)) \<and>
            (okv \<longrightarrow> reason = None))"
proof -
  from assms have pos: "0 < lvl" and nn: "threshold \<noteq> ''none''"
    by (auto dest: threshold_levels_cases)
  have a: "compute_threshold_ok diags ''none'' = Inr (True, None)"
    by (simp add: compute_threshold_ok_def)
  have b: "compute_threshold_ok [] threshold = Inr (True, None)"
    using assms pos nn by (simp add: compute_threshold_ok_def)
  show ?thesis
  proof (cases "find (\<lambda>d. lvl \<le> severity_level d) diags")
    case None
    then have "scan_max lvl 0 diags < lvl" using pos by (simp add: scan_max_none_less)
    then have r: "compute_threshold_ok diags threshold = Inr (True, None)"
      using assms nn by (simp add: compute_threshold_ok_def)
    from None have "\<not> (diags \<noteq> [] \<and> lvl \<le> Max (severity_level ` set diags))"
      using find_level_Max [of lvl diags] by simp
    with a b r show ?thesis by auto
  next
    case (Some d)
    then have lv: "lvl \<le> severity_level d"
      by (auto simp: find_Some_iff)
    from Some have sm: "scan_max lvl 0 diags = severity_level d"
      using pos by (simp add: scan_max_find)
    then have r: "compute_threshold_ok diags threshold =
                    Inr (False, Some (breach_msg threshold (severity_level d)))"
      using assms nn lv pos by (simp add: compute_threshold_ok_def)
    from Some have m: "diags \<noteq> [] \<and> lvl \<le> Max (severity_level ` set diags)"
      using find_level_Max [of lvl diags] by simp
    with pos have "Max (severity_level ` set diags) \<noteq> 0" by auto
    with a b r m show ?thesis by auto
  qed
qed

text \<open>
  Claim C1 says that the reason of a not-ok verdict names the threshold and the maximum
  severity level observed over the diagnostics. The code does not do that: the scan stops
  at the first diagnostic that reaches the threshold, and the number it prints as
  \<^verbatim>\<open>max_severity_level\<close> is the maximum up to there. Under the threshold
  \<^verbatim>\<open>information\<close>, an information followed by an error gives a reason that names
  level 1, while the maximum over the diagnostics is 3.
\<close>

theorem compute_threshold_ok_reason_level:
  "compute_threshold_ok [info_diag, error_diag] ''information''
     = Inr (False, Some (breach_msg ''information'' 1)) \<and>
   Max (severity_level ` set [info_diag, error_diag]) = 3 \<and>
   compute_threshold_ok [info_diag, error_diag] ''information''
     \<noteq> Inr (False, Some (breach_msg ''information''
                             (Max (severity_level ` set [info_diag, error_diag]))))"
  by (simp add: compute_threshold_ok_def threshold_levels_def info_diag_def error_diag_def
      breach_msg_def str_int_def)


section \<open>Ordering of the diagnostics\<close>

text \<open>
  Claim C2. In every result of \<^verbatim>\<open>run_check\<close> the diagnostics are sorted ascending by the
  key (file, start line, start character), and sorting them again by that key returns the
  same list. No other key is involved: the list built from a parsed report is the stable
  sort of the normalized diagnostics, so diagnostics with equal keys stay in the order in
  which the checker reported them.
\<close>

theorem diagnostics_sorted:
  "(run_check h params = Inr r \<longrightarrow>
      sorted (map diag_key (diagnostics r)) \<and>
      sort_key diag_key (diagnostics r) = diagnostics r) \<and>
   (normalize_diagnostics h parsed = Inr ds \<longrightarrow>
      (\<exists>gd raws ds0.
         dict_get parsed ''generalDiagnostics'' (JList []) = Inr gd \<and>
         py_iter (if truthy gd then gd else JList []) = Inr raws \<and>
         map_err (normalize_diag h) raws = Inr ds0 \<and>
         ds = sort_key diag_key ds0 \<and>
         (\<forall>k. filter (\<lambda>d. diag_key d = k) ds = filter (\<lambda>d. diag_key d = k) ds0)))"
proof (intro conjI impI)
  assume run: "run_check h params = Inr r"
  from run_check_diagnostics [OF run] obtain ds0 where
    d: "diagnostics r = sort_key diag_key ds0"
    by blast
  show "sorted (map diag_key (diagnostics r))"
    by (simp add: d)
  then show "sort_key diag_key (diagnostics r) = diagnostics r"
    by (rule sort_key_id_if_sorted)
next
  assume "normalize_diagnostics h parsed = Inr ds"
  then obtain gd raws ds0 where
    "dict_get parsed ''generalDiagnostics'' (JList []) = Inr gd"
    "py_iter (if truthy gd then gd else JList []) = Inr raws"
    "map_err (normalize_diag h) raws = Inr ds0"
    "ds = sort_key diag_key ds0"
    unfolding normalize_diagnostics_def bind_err_Inr_iff by auto
  moreover from this have
    "\<forall>k. filter (\<lambda>d. diag_key d = k) ds = filter (\<lambda>d. diag_key d = k) ds0"
    by (simp add: sort_key_stable)
  ultimately show "\<exists>gd raws ds0.
         dict_get parsed ''generalDiagnostics'' (JList []) = Inr gd \<and>
         py_iter (if truthy gd then gd else JList []) = Inr raws \<and>
         map_err (normalize_diag h) raws = Inr ds0 \<and>
         ds = sort_key diag_key ds0 \<and>
         (\<forall>k. filter (\<lambda>d. diag_key d = k) ds = filter (\<lambda>d. diag_key d = k) ds0)"
    by blast
qed

text \<open>The sample run: the checker reported line 3 before line 1, the result lists line 1
  first.\<close>

theorem diagnostics_sorted_witness:
  "run_check demo_host demo_params = Inr demo_result \<and>
   map diag_key (diagnostics demo_result)
     = [(''/r/proj/a/x.py'', 1, 0), (''/r/proj/a/x.py'', 3, 4)] \<and>
   sorted (map diag_key (diagnostics demo_result)) \<and>
   sort_key diag_key (diagnostics demo_result) = diagnostics demo_result"
proof -
  have k: "map diag_key (diagnostics demo_result)
             = [(''/r/proj/a/x.py'', 1, 0), (''/r/proj/a/x.py'', 3, 4)]"
    by (simp add: demo_result_def error_diag_def diag_key_def)
  from diagnostics_sorted [of demo_host demo_params demo_result] demo_run k
  show ?thesis by blast
qed

section \<open>Severity and its level\<close>

text \<open>
  Claim C3. A diagnostic produced by normalization has the severity level that the table
  \<^verbatim>\<open>SEVERITY_LEVEL\<close> gives for its severity, so that only the pairs information/1,
  warning/2 and error/3 occur; the same holds for every diagnostic of every result of
  \<^verbatim>\<open>run_check\<close>.
\<close>

theorem severity_level_consistent:
  "(normalize_diag h d = Inr n \<longrightarrow>
      SEVERITY_LEVEL (severity n) = Some (severity_level n) \<and>
      (severity n, severity_level n)
        \<in> {(''information'', 1), (''warning'', 2), (''error'', 3)}) \<and>
   (run_check h params = Inr r \<longrightarrow>
      (\<forall>x \<in> set (diagnostics r).
         SEVERITY_LEVEL (severity x) = Some (severity_level x) \<and>
         (severity x, severity_level x)
           \<in> {(''information'', 1), (''warning'', 2), (''error'', 3)}))"
proof (intro conjI impI ballI)
  assume n: "normalize_diag h d = Inr n"
  show "SEVERITY_LEVEL (severity n) = Some (severity_level n)"
    by (rule normalize_diag_level [OF n])
  then show "(severity n, severity_level n)
               \<in> {(''information'', 1), (''warning'', 2), (''error'', 3)}"
    by (rule SEVERITY_LEVEL_pairs)
next
  fix x
  assume run: "run_check h params = Inr r" and x: "x \<in> set (diagnostics r)"
  from run_check_diagnostics [OF run] obtain raws ds0 where
    m: "map_err (normalize_diag h) raws = Inr ds0" and
    d: "diagnostics r = sort_key diag_key ds0"
    by blast
  from x d have "x \<in> set ds0" by simp
  from map_err_Inr_set [OF m this] obtain raw where "normalize_diag h raw = Inr x"
    by blast
  then show "SEVERITY_LEVEL (severity x) = Some (severity_level x)"
    by (rule normalize_diag_level)
  then show "(severity x, severity_level x)
               \<in> {(''information'', 1), (''warning'', 2), (''error'', 3)}"
    by (rule SEVERITY_LEVEL_pairs)
qed

text \<open>The sample run: its error has level 3.\<close>

theorem severity_level_consistent_witness:
  "run_check demo_host demo_params = Inr demo_result \<and>
   error_diag \<in> set (diagnostics demo_result) \<and>
   severity error_diag = ''error'' \<and>
   SEVERITY_LEVEL ''error'' = Some (severity_level error_diag) \<and>
   severity_level error_diag = 3"
proof -
  have m: "error_diag \<in> set (diagnostics demo_result)"
    by (simp add: demo_result_def)
  have s: "severity error_diag = ''error''"
    by (simp add: error_diag_def)
  from severity_level_consistent [of demo_host JNull error_diag demo_params demo_result]
    demo_run m
  have "SEVERITY_LEVEL (severity error_diag) = Some (severity_level error_diag)"
    by blast
  with demo_run m s show ?thesis
    by (simp add: SEVERITY_LEVEL_def)
qed

section \<open>The two identifier fields\<close>

text \<open>
  Claim C10. In every diagnostic produced by normalization the field \<^verbatim>\<open>code\<close> is equal to
  the field \<^verbatim>\<open>rule\<close>, both absent or both the same string; so it is in every diagnostic of
  every result of \<^verbatim>\<open>run_check\<close>.
\<close>

theorem code_equals_rule:
  "(normalize_diag h d = Inr n \<longrightarrow> code n = rule n) \<and>
   (run_check h params = Inr r \<longrightarrow> (\<forall>x \<in> set (diagnostics r). code x = rule x))"
proof (intro conjI impI ballI)
  assume "normalize_diag h d = Inr n"
  then show "code n = rule n" by (rule normalize_diag_code_rule)
next
  fix x
  assume run: "run_check h params = Inr r" and x: "x \<in> set (diagnostics r)"
  from run_check_diagnostics [OF run] obtain raws ds0 where
    m: "map_err (normalize_diag h) raws = Inr ds0" and
    d: "diagnostics r = sort_key diag_key ds0"
    by blast
  from x d have "x \<in> set ds0" by simp
  from map_err_Inr_set [OF m this] obtain raw where "normalize_diag h raw = Inr x"
    by blast
  then show "code x = rule x" by (rule normalize_diag_code_rule)
qed

text \<open>The sample run: the error carries its rule in both fields.\<close>

theorem code_equals_rule_witness:
  "run_check demo_host demo_params = Inr demo_result \<and>
   error_diag \<in> set (diagnostics demo_result) \<and>
   rule error_diag = Some ''reportAssignmentType'' \<and>
   code error_diag = Some ''reportAssignmentType''"
proof -
  have m: "error_diag \<in> set (diagnostics demo_result)"
    by (simp add: demo_result_def)
  have s: "rule error_diag = Some ''reportAssignmentType''"
    by (simp add: error_diag_def)
  from code_equals_rule [of demo_host JNull error_diag demo_params demo_result] demo_run m
  have "code error_diag = rule error_diag"
    by blast
  with demo_run m s show ?thesis by simp
qed

section \<open>The parser\<close>

text \<open>
  Claim C5. \<^verbatim>\<open>parse_pyright_json\<close> returns a value for every text, never an exception (its
  result type has no error). The value is \<open>None\<close> exactly when the decoder rejects the text,
  or the decoded value is not a mapping, or the mapping lacks the key \<^verbatim>\<open>summary\<close> or the
  key \<^verbatim>\<open>generalDiagnostics\<close>; otherwise it is the decoded mapping. In particular the text
  \<^verbatim>\<open>not-json\<close>, which the decoder rejects, gives \<open>None\<close>.
\<close>

theorem parse_pyright_json_total:
  "(parse_pyright_json h text = None \<longleftrightarrow>
      json_loads h text = None
      \<or> (\<exists>v. json_loads h text = Some v \<and> (\<forall>kvs. v \<noteq> JDict kvs))
      \<or> (\<exists>kvs. json_loads h text = Some (JDict kvs) \<and>
                (''summary'' \<notin> fst ` set kvs \<or> ''generalDiagnostics'' \<notin> fst ` set kvs))) \<and>
   (parse_pyright_json h text \<noteq> None \<longrightarrow> parse_pyright_json h text = json_loads h text) \<and>
   (json_loads h ''not-json'' = None \<longrightarrow> parse_pyright_json h ''not-json'' = None)"
proof (intro conjI)
  show "parse_pyright_json h text = None \<longleftrightarrow>
      json_loads h text = None
      \<or> (\<exists>v. json_loads h text = Some v \<and> (\<forall>kvs. v \<noteq> JDict kvs))
      \<or> (\<exists>kvs. json_loads h text = Some (JDict kvs) \<and>
                (''summary'' \<notin> fst ` set kvs \<or> ''generalDiagnostics'' \<notin> fst ` set kvs))"
  proof (cases "json_loads h text")
    case None
    then show ?thesis by (simp add: parse_pyright_json_def)
  next
    case (Some v)
    then show ?thesis
      by (cases v) (auto simp: parse_pyright_json_def map_of_eq_None_iff)
  qed
  show "parse_pyright_json h text \<noteq> None \<longrightarrow> parse_pyright_json h text = json_loads h text"
    by (auto simp: parse_pyright_json_def split: option.splits json.splits)
  show "json_loads h ''not-json'' = None \<longrightarrow> parse_pyright_json h ''not-json'' = None"
    by (simp add: parse_pyright_json_def)
qed

text \<open>The sample decoder rejects \<^verbatim>\<open>not-json\<close>, and the parser returns \<open>None\<close>.\<close>

theorem parse_pyright_json_total_witness:
  "json_loads demo_host ''not-json'' = None \<and>
   parse_pyright_json demo_host ''not-json'' = None"
proof -
  have n: "json_loads demo_host ''not-json'' = None"
    by (simp add: demo_host_fields demo_output_def)
  from parse_pyright_json_total [of demo_host "''not-json''"] n
  show ?thesis by blast
qed


section \<open>The missing target\<close>






section \<open>The summary\<close>

lemma normalize_summary_Inr:
  assumes "normalize_summary h (JDict kvs) = Inr s"
  shows "\<exists>sm. or_empty_dict (case map_of kvs ''summary'' of None \<Rightarrow> JDict [] | Some v \<Rightarrow> v)
                 = JDict sm \<and>
              get_int h (JDict sm) ''filesAnalyzed'' = Inr (files_analyzed s) \<and>
              get_int h (JDict sm) ''errorCount'' = Inr (error_count s) \<and>
              get_int h (JDict sm) ''warningCount'' = Inr (warning_count s) \<and>
              get_int h (JDict sm) ''informationCount'' = Inr (information_count s) \<and>
              bind_err (dict_get (JDict sm) ''timeInSec'' (JFloat (FloatVal 0))) (py_float h)
                = Inr (time_sec s)"
proof -
  from assms obtain summary_raw where
    a: "or_empty_dict (case map_of kvs ''summary'' of None \<Rightarrow> JDict [] | Some v \<Rightarrow> v)
          = summary_raw" and
    b: "get_int h summary_raw ''filesAnalyzed'' = Inr (files_analyzed s)" and
    c: "get_int h summary_raw ''errorCount'' = Inr (error_count s)" and
    d: "get_int h summary_raw ''warningCount'' = Inr (warning_count s)" and
    e: "get_int h summary_raw ''informationCount'' = Inr (information_count s)" and
    f: "bind_err (dict_get summary_raw ''timeInSec'' (JFloat (FloatVal 0))) (py_float h)
          = Inr (time_sec s)"
    unfolding normalize_summary_def bind_err_Inr_iff by auto
  from b obtain sm where sm: "summary_raw = JDict sm"
    unfolding get_int_def bind_err_Inr_iff by (auto dest: dict_get_Inr_dict)
  show ?thesis
    by (rule exI [of _ sm]) (intro conjI a [unfolded sm] b [unfolded sm] c [unfolded sm]
        d [unfolded sm] e [unfolded sm] f [unfolded sm])
qed

lemma normalize_summary_same_field:
  "map_of kvs' ''summary'' = map_of kvs ''summary'' \<Longrightarrow>
   normalize_summary h (JDict kvs') = normalize_summary h (JDict kvs)"
  by (simp add: normalize_summary_def)

lemma parse_pyright_json_Some:
  assumes "parse_pyright_json h text = Some parsed"
  shows "\<exists>kvs sv. parsed = JDict kvs \<and> map_of kvs ''summary'' = Some sv"
  using assms
  by (auto simp: parse_pyright_json_def split: option.splits json.splits if_splits)

lemma get_int_reported:
  assumes "get_int h (JDict sm) k = Inr x"
  shows "(map_of sm k = None \<longrightarrow> x = 0) \<and>
         (\<forall>v. map_of sm k = Some v \<longrightarrow> py_int h v = Inr x) \<and>
         (\<forall>n. map_of sm k = Some (JInt n) \<longrightarrow> x = n)"
  using assms by (auto simp: get_int_JDict)

lemma get_time_reported:
  assumes "bind_err (dict_get (JDict sm) k (JFloat (FloatVal 0))) (py_float h) = Inr x"
  shows "(map_of sm k = None \<longrightarrow> x = FloatVal 0) \<and>
         (\<forall>v. map_of sm k = Some v \<longrightarrow> py_float h v = Inr x) \<and>
         (\<forall>f. map_of sm k = Some (JFloat f) \<longrightarrow> x = f)"
  using assms by auto

text \<open>The launch that reaches a parsed report.\<close>

lemma launch_check_parsed:
  assumes "fst (build_pyright_argv h) \<noteq> []"
      and "build_cmd h params = Inr cmd"
      and "subprocess_run h cmd (path_str analyzed) (timeout_sec params)
             = Completed rc out err"
      and "parse_pyright_json h out = Some parsed"
  shows "launch_check h params analyzed checked =
           report_result h params cmd rc parsed checked analyzed"
  by (simp add: launch_check_def assms)

text \<open>
  Claim C7, as amended. When the checker ran, its output was parsed and \<^verbatim>\<open>run_check\<close>
  returns a result, the summary of the result is read from the report's \<^verbatim>\<open>summary\<close>
  field alone, never from the diagnostics: any report with the same \<^verbatim>\<open>summary\<close> field
  gives the same summary. Each of the four counters is 0 when its key is absent and is
  \<^verbatim>\<open>int\<close> of the reported value otherwise, which is the value itself for an integer; the
  elapsed time is 0.0 when absent and \<^verbatim>\<open>float\<close> of the reported value otherwise, which is
  the value itself for a float. So a count that is not an integer is converted, not
  copied (a float is truncated), and a present value that the conversion rejects leaves
  no result at all.
\<close>

theorem summary_passthrough:
  assumes ex: "path_exists h (target_path h params) = Inr True"
      and root: "analyzed_root_of h params = Inr analyzed"
      and argv: "fst (build_pyright_argv h) \<noteq> []"
      and cmd: "build_cmd h params = Inr cmd"
      and sub: "subprocess_run h cmd (path_str analyzed) (timeout_sec params)
                  = Completed rc out err"
      and parse: "parse_pyright_json h out = Some parsed"
      and run: "run_check h params = Inr r"
  shows "\<exists>kvs sv sm.
           parsed = JDict kvs \<and> map_of kvs ''summary'' = Some sv \<and>
           or_empty_dict sv = JDict sm \<and>
           (\<forall>(key, field) \<in> set [(''filesAnalyzed'', files_analyzed),
                                  (''errorCount'', error_count),
                                  (''warningCount'', warning_count),
                                  (''informationCount'', information_count)].
              (map_of sm key = None \<longrightarrow> field (summary r) = 0) \<and>
              (\<forall>v. map_of sm key = Some v \<longrightarrow> py_int h v = Inr (field (summary r))) \<and>
              (\<forall>n. map_of sm key = Some (JInt n) \<longrightarrow> field (summary r) = n)) \<and>
           (map_of sm ''timeInSec'' = None \<longrightarrow> time_sec (summary r) = FloatVal 0) \<and>
           (\<forall>v. map_of sm ''timeInSec'' = Some v \<longrightarrow>
                 py_float h v = Inr (time_sec (summary r))) \<and>
           (\<forall>f. map_of sm ''timeInSec'' = Some (JFloat f) \<longrightarrow> time_sec (summary r) = f) \<and>
           (\<forall>kvs'. map_of kvs' ''summary'' = Some sv \<longrightarrow>
                    normalize_summary h (JDict kvs') = Inr (summary r))"
proof -
  from run run_check_exists [OF ex] root obtain checked where
    "launch_check h params analyzed checked = Inr r"
    by (auto simp: bind_err_Inr_iff)
  with launch_check_parsed [OF argv cmd sub parse] have
    "report_result h params cmd rc parsed checked analyzed = Inr r"
    by simp
  from report_result_Inr [OF this] have s: "normalize_summary h parsed = Inr (summary r)"
    by auto
  from parse_pyright_json_Some [OF parse] obtain kvs sv where
    p: "parsed = JDict kvs" and sv: "map_of kvs ''summary'' = Some sv"
    by blast
  from normalize_summary_Inr [OF s [unfolded p]] sv obtain sm where
    sm: "or_empty_dict sv = JDict sm" and
    fa: "get_int h (JDict sm) ''filesAnalyzed'' = Inr (files_analyzed (summary r))" and
    ec: "get_int h (JDict sm) ''errorCount'' = Inr (error_count (summary r))" and
    wc: "get_int h (JDict sm) ''warningCount'' = Inr (warning_count (summary r))" and
    ic: "get_int h (JDict sm) ''informationCount'' = Inr (information_count (summary r))" and
    ts: "bind_err (dict_get (JDict sm) ''timeInSec'' (JFloat (FloatVal 0))) (py_float h)
           = Inr (time_sec (summary r))"
    by auto
  have counters:
    "\<forall>(key, field) \<in> set [(''filesAnalyzed'', files_analyzed),
                            (''errorCount'', error_count),
                            (''warningCount'', warning_count),
                            (''informationCount'', information_count)].
        (map_of sm key = None \<longrightarrow> field (summary r) = 0) \<and>
        (\<forall>v. map_of sm key = Some v \<longrightarrow> py_int h v = Inr (field (summary r))) \<and>
        (\<forall>n. map_of sm key = Some (JInt n) \<longrightarrow> field (summary r) = n)"
    using get_int_reported [OF fa] get_int_reported [OF ec] get_int_reported [OF wc]
      get_int_reported [OF ic]
    by simp
  have t0: "map_of sm ''timeInSec'' = None \<longrightarrow> time_sec (summary r) = FloatVal 0"
    using get_time_reported [OF ts] by blast
  have t1: "\<forall>v. map_of sm ''timeInSec'' = Some v \<longrightarrow>
                 py_float h v = Inr (time_sec (summary r))"
    using get_time_reported [OF ts] by blast
  have t2: "\<forall>f. map_of sm ''timeInSec'' = Some (JFloat f) \<longrightarrow> time_sec (summary r) = f"
    using get_time_reported [OF ts] by blast
  have same: "\<forall>kvs'. map_of kvs' ''summary'' = Some sv \<longrightarrow>
                normalize_summary h (JDict kvs') = Inr (summary r)"
  proof (intro allI impI)
    fix kvs'
    assume "map_of kvs' ''summary'' = Some sv"
    with sv have "map_of kvs' ''summary'' = map_of kvs ''summary''"
      by simp
    from normalize_summary_same_field [OF this] s p
    show "normalize_summary h (JDict kvs') = Inr (summary r)"
      by simp
  qed
  show ?thesis
    by (rule exI [of _ kvs], rule exI [of _ sv], rule exI [of _ sm])
       (intro conjI p sv sm counters t0 t1 t2 same)
qed

text \<open>The sample run: the report counts five errors and lists one, and the result says
  five.\<close>

theorem summary_passthrough_witness:
  "path_exists demo_host (target_path demo_host demo_params) = Inr True \<and>
   analyzed_root_of demo_host demo_params = Inr [''/'', ''r'', ''proj''] \<and>
   fst (build_pyright_argv demo_host) \<noteq> [] \<and>
   build_cmd demo_host demo_params =
     Inr [''/usr/bin/pyright'', ''--outputjson'', ''/r/proj/a/x.py'', ''/r/proj/a.b/x.py''] \<and>
   subprocess_run demo_host
     [''/usr/bin/pyright'', ''--outputjson'', ''/r/proj/a/x.py'', ''/r/proj/a.b/x.py'']
     (path_str [''/'', ''r'', ''proj'']) (timeout_sec demo_params)
     = Completed 1 demo_output [] \<and>
   parse_pyright_json demo_host demo_output = Some demo_report \<and>
   run_check demo_host demo_params = Inr demo_result \<and>
   error_count (summary demo_result) = 5 \<and>
   map severity (diagnostics demo_result) = [''warning'', ''error'']"
proof -
  have a: "fst (build_pyright_argv demo_host) \<noteq> []"
    by (simp add: demo_argv)
  from summary_passthrough
    [OF demo_exists demo_analyzed a demo_cmd demo_subprocess demo_parse demo_run]
  obtain kvs sv sm where
    k: "demo_report = JDict kvs" and v: "map_of kvs ''summary'' = Some sv" and
    m: "or_empty_dict sv = JDict sm" and
    c: "\<forall>(key, field) \<in> set [(''filesAnalyzed'', files_analyzed),
                              (''errorCount'', error_count),
                              (''warningCount'', warning_count),
                              (''informationCount'', information_count)].
          (map_of sm key = None \<longrightarrow> field (summary demo_result) = 0) \<and>
          (\<forall>v. map_of sm key = Some v \<longrightarrow> py_int demo_host v = Inr (field (summary demo_result))) \<and>
          (\<forall>n. map_of sm key = Some (JInt n) \<longrightarrow> field (summary demo_result) = n)"
    by (elim exE conjE) (rule that; assumption)
  from c have e: "map_of sm ''errorCount'' = Some (JInt 5)
                    \<longrightarrow> error_count (summary demo_result) = 5"
    by simp
  from v k [unfolded demo_report_def, symmetric]
  have s: "sv = JDict [(''filesAnalyzed'', JInt 2), (''errorCount'', JInt 5),
                    (''warningCount'', JInt 1), (''informationCount'', JInt 0),
                    (''timeInSec'', JFloat (FloatVal (1 / 2)))]"
    by simp
  from m [unfolded s or_empty_dict_def, symmetric]
  have "map_of sm ''errorCount'' = Some (JInt 5)"
    by simp
  with e have five: "error_count (summary demo_result) = 5"
    by blast
  have sev: "map severity (diagnostics demo_result) = [''warning'', ''error'']"
    by (simp add: demo_result_def error_diag_def)
  show ?thesis
    by (intro conjI demo_exists demo_analyzed a demo_cmd demo_subprocess demo_parse demo_run
        five sev)
qed

text \<open>
  Claim C7 as stated fails: a report whose error count is 1.5 gets the error count 1, which
  is not a copy, and a report whose error count is \<^verbatim>\<open>null\<close>, present and not a number,
  gets no summary, since the conversion raises \<^verbatim>\<open>TypeError\<close>.
\<close>

theorem summary_not_verbatim_counterexample:
  "normalize_summary demo_host float_count_report =
     Inr \<lparr> files_analyzed = 1, error_count = 1, warning_count = 0, information_count = 0,
           time_sec = FloatVal (1 / 2) \<rparr> \<and>
   normalize_summary demo_host null_count_report = Inl TypeError"
proof -
  have "\<lfloor>3 / 2 :: rat\<rfloor> = 1"
    by (rule floor_unique) simp_all
  then show ?thesis
    by (simp add: normalize_summary_def float_count_report_def null_count_report_def
        get_int_def or_empty_dict_def)
qed


section \<open>The expanded paths\<close>

text \<open>The shape of a result when the target exists.\<close>

lemma run_check_exists_paths:
  assumes ex: "path_exists h (target_path h params) = Inr True"
      and run: "run_check h params = Inr r"
  shows "\<exists>checked.
           checked_paths_of h params = Inr checked \<and> checked_paths r = checked \<and>
           (if fst (build_pyright_argv h) = [] then command r = []
            else \<exists>cmd. build_cmd h params = Inr cmd \<and> command r = cmd)"
proof -
  from run run_check_exists [OF ex] obtain analyzed checked where
    c: "checked_paths_of h params = Inr checked" and
    l: "launch_check h params analyzed checked = Inr r"
    by (auto simp: bind_err_Inr_iff)
  have "checked_paths r = checked \<and>
        (if fst (build_pyright_argv h) = [] then command r = []
         else \<exists>cmd. build_cmd h params = Inr cmd \<and> command r = cmd)"
  proof (cases "fst (build_pyright_argv h) = []")
    case True
    with launch_check_Inr [OF l] show ?thesis by auto
  next
    case False
    with launch_check_Inr [OF l] obtain cmd where
      b: "build_cmd h params = Inr cmd" and
      k: "(\<exists>reason c ver. r = failure_result h reason cmd c ver analyzed checked)
          \<or> (\<exists>rc out err parsed.
                report_result h params cmd rc parsed checked analyzed = Inr r)"
      by blast
    from k have "checked_paths r = checked \<and> command r = cmd"
    proof
      assume "\<exists>reason c ver. r = failure_result h reason cmd c ver analyzed checked"
      then show ?thesis by auto
    next
      assume "\<exists>rc out err parsed.
                report_result h params cmd rc parsed checked analyzed = Inr r"
      then obtain rc parsed where
        "report_result h params cmd rc parsed checked analyzed = Inr r"
        by blast
      from report_result_Inr [OF this] show ?thesis by auto
    qed
    with False b show ?thesis by auto
  qed
  with c show ?thesis by blast
qed

lemma iter_included_paths_plain:
  assumes "opt_list incl = []" and "opt_list excl = []"
  shows "iter_included_paths h rootp incl excl = bind_err (resolve h rootp) (\<lambda>q. Inr [q])"
  using assms by (simp add: iter_included_paths_def bind_err_def split: sum.splits)

lemma path_strings_no_include:
  assumes "opt_list (include_globs params) = []"
  shows "path_strings h params paths =
           bind_err (resolve h (target_path h params)) (\<lambda>t. Inr [path_str t])"
  using assms by (simp add: path_strings_def)

text \<open>
  Claim C8. Without include globs nothing is expanded. The expander alone, given no
  exclude globs either, returns the list that holds the resolved root and nothing else;
  and in every result of \<^verbatim>\<open>run_check\<close> for a request without include globs the checked
  paths are the resolved target alone, and so is the path argument of the command line,
  whatever the exclude globs are: the list that the expander filters with them is not
  used then.
\<close>

theorem no_include_paths:
  "(opt_list incl = [] \<and> opt_list excl = [] \<and> resolve h rootp = Inr q \<longrightarrow>
      iter_included_paths h rootp incl excl = Inr [q]) \<and>
   (path_exists h (target_path h params) = Inr True \<and>
    opt_list (include_globs params) = [] \<and>
    run_check h params = Inr r \<longrightarrow>
      (\<exists>t. resolve h (target_path h params) = Inr t \<and>
           checked_paths r = [path_str t] \<and>
           (if fst (build_pyright_argv h) = [] then command r = []
            else command r =
                   fst (build_pyright_argv h) @ [''--outputjson'']
                     @ opt_list (extra_args params) @ [path_str t])))"
proof (intro conjI impI)
  assume "opt_list incl = [] \<and> opt_list excl = [] \<and> resolve h rootp = Inr q"
  then show "iter_included_paths h rootp incl excl = Inr [q]"
    by (simp add: iter_included_paths_plain)
next
  assume a: "path_exists h (target_path h params) = Inr True \<and>
    opt_list (include_globs params) = [] \<and>
    run_check h params = Inr r"
  then have ex: "path_exists h (target_path h params) = Inr True"
    and inc: "opt_list (include_globs params) = []"
    and run: "run_check h params = Inr r"
    by simp_all
  from run_check_exists_paths [OF ex run] obtain checked where
    c: "checked_paths_of h params = Inr checked" and
    cr: "checked_paths r = checked" and
    cm: "if fst (build_pyright_argv h) = [] then command r = []
         else \<exists>cmd. build_cmd h params = Inr cmd \<and> command r = cmd"
    by blast
  from c obtain paths where
    ps: "path_strings h params paths = Inr checked"
    unfolding checked_paths_of_def bind_err_Inr_iff by blast
  with inc obtain t where
    t: "resolve h (target_path h params) = Inr t" and ch: "checked = [path_str t]"
    by (auto simp: path_strings_no_include bind_err_Inr_iff)
  have cmd: "if fst (build_pyright_argv h) = [] then command r = []
             else command r =
                    fst (build_pyright_argv h) @ [''--outputjson'']
                      @ opt_list (extra_args params) @ [path_str t]"
  proof (cases "fst (build_pyright_argv h) = []")
    case True
    with cm show ?thesis by simp
  next
    case False
    with cm obtain cmd where b: "build_cmd h params = Inr cmd" and k: "command r = cmd"
      by auto
    from b obtain paths' path_args where
      "path_strings h params paths' = Inr path_args" and
      "cmd = fst (build_pyright_argv h) @ [''--outputjson'']
               @ opt_list (extra_args params) @ path_args"
      unfolding build_cmd_def Let_def bind_err_Inr_iff by auto
    with inc t have "cmd = fst (build_pyright_argv h) @ [''--outputjson'']
                             @ opt_list (extra_args params) @ [path_str t]"
      by (auto simp: path_strings_no_include)
    with k False show ?thesis by simp
  qed
  show "\<exists>t. resolve h (target_path h params) = Inr t \<and>
           checked_paths r = [path_str t] \<and>
           (if fst (build_pyright_argv h) = [] then command r = []
            else command r =
                   fst (build_pyright_argv h) @ [''--outputjson'']
                     @ opt_list (extra_args params) @ [path_str t])"
    by (rule exI [of _ t]) (simp add: t cr ch cmd)
qed

text \<open>The sample run without include globs and with the exclude glob \<^verbatim>\<open>proj\<close>, which
  matches the name of the target: the target is the one checked path all the same.\<close>

theorem no_include_paths_witness:
  "path_exists demo_host (target_path demo_host exclude_params) = Inr True \<and>
   opt_list (include_globs exclude_params) = [] \<and>
   exclude_globs exclude_params = Some [''proj''] \<and>
   run_check demo_host exclude_params = Inr exclude_result \<and>
   resolve demo_host (target_path demo_host exclude_params) = Inr [''/'', ''r'', ''proj''] \<and>
   checked_paths exclude_result = [''/r/proj''] \<and>
   command exclude_result = [''/usr/bin/pyright'', ''--outputjson'', ''/r/proj'']"
proof -
  have i: "opt_list (include_globs exclude_params) = []"
    by (simp add: exclude_params_fields opt_list_def)
  have e: "exclude_globs exclude_params = Some [''proj'']"
    by (simp add: exclude_params_fields)
  have t: "resolve demo_host (target_path demo_host exclude_params)
             = Inr [''/'', ''r'', ''proj'']"
    by (simp add: exclude_target demo_resolve_proj)
  have s: "path_str [''/'', ''r'', ''proj''] = ''/r/proj''"
    by (simp add: path_str_def is_root_part_def)
  have x: "opt_list (extra_args exclude_params) = []"
    by (simp add: exclude_params_fields opt_list_def)
  from no_include_paths [of _ _ demo_host _ _ exclude_params exclude_result]
    exclude_exists i exclude_run t
  have "checked_paths exclude_result = [path_str [''/'', ''r'', ''proj'']] \<and>
        command exclude_result =
          fst (build_pyright_argv demo_host) @ [''--outputjson'']
            @ opt_list (extra_args exclude_params) @ [path_str [''/'', ''r'', ''proj'']]"
    by (auto simp: demo_argv)
  then have "checked_paths exclude_result = [''/r/proj''] \<and>
        command exclude_result = [''/usr/bin/pyright'', ''--outputjson'', ''/r/proj'']"
    by (simp add: s x demo_argv)
  with exclude_exists i e exclude_run t show ?thesis
    by simp
qed

text \<open>
  Claim C9, as amended. For a request with include globs whose target exists, the expanded
  paths are listed without duplicates and sorted ascending in the order of path objects,
  which compares the sequences of path components (and not the strings: a component that
  is a prefix of its neighbour's comes first, whatever character follows). The strings of
  that list are the \<^verbatim>\<open>checked_paths\<close> of the result and, unless no executable was found,
  the last arguments of the command line.
\<close>

theorem checked_paths_sorted_by_parts:
  assumes ex: "path_exists h (target_path h params) = Inr True"
      and inc: "opt_list (include_globs params) \<noteq> []"
      and run: "run_check h params = Inr r"
  shows "\<exists>rootp paths ps.
           root_for_globs h params = Inr rootp \<and>
           iter_included_paths h rootp (include_globs params) (exclude_globs params)
             = Inr paths \<and>
           ps = sort (remdups paths) \<and>
           sorted ps \<and> distinct ps \<and> set ps = set paths \<and>
           checked_paths r = map path_str ps \<and>
           (if fst (build_pyright_argv h) = [] then command r = []
            else command r =
                   fst (build_pyright_argv h) @ [''--outputjson'']
                     @ opt_list (extra_args params) @ map path_str ps)"
proof -
  from run_check_exists_paths [OF ex run] obtain checked where
    c: "checked_paths_of h params = Inr checked" and
    cr: "checked_paths r = checked" and
    cm: "if fst (build_pyright_argv h) = [] then command r = []
         else \<exists>cmd. build_cmd h params = Inr cmd \<and> command r = cmd"
    by blast
  have ps: "path_strings h params xs = Inr (map path_str (sort (remdups xs)))" for xs
    using inc by (simp add: path_strings_def)
  from c obtain rootp paths where
    rt: "root_for_globs h params = Inr rootp" and
    p: "iter_included_paths h rootp (include_globs params) (exclude_globs params)
          = Inr paths" and
    ch: "checked = map path_str (sort (remdups paths))"
    unfolding checked_paths_of_def bind_err_Inr_iff ps by auto
  have cmd: "if fst (build_pyright_argv h) = [] then command r = []
             else command r =
                    fst (build_pyright_argv h) @ [''--outputjson'']
                      @ opt_list (extra_args params) @ map path_str (sort (remdups paths))"
  proof (cases "fst (build_pyright_argv h) = []")
    case True
    with cm show ?thesis by simp
  next
    case False
    with cm obtain cmd where b: "build_cmd h params = Inr cmd" and k: "command r = cmd"
      by auto
    from b rt p have "cmd = fst (build_pyright_argv h) @ [''--outputjson'']
                           @ opt_list (extra_args params)
                           @ map path_str (sort (remdups paths))"
      by (simp add: build_cmd_def ps)
    with k False show ?thesis by simp
  qed
  show ?thesis
    by (rule exI [of _ rootp], rule exI [of _ paths], rule exI [of _ "sort (remdups paths)"])
       (simp add: rt p cr ch cmd)
qed

text \<open>The sample run: the module of the package \<^verbatim>\<open>a\<close> is listed before the module of
  the directory \<^verbatim>\<open>a.b\<close>.\<close>

theorem checked_paths_sorted_by_parts_witness:
  "path_exists demo_host (target_path demo_host demo_params) = Inr True \<and>
   opt_list (include_globs demo_params) \<noteq> [] \<and>
   run_check demo_host demo_params = Inr demo_result \<and>
   sort (remdups demo_files)
     = [[''/'', ''r'', ''proj'', ''a'', ''x.py''], [''/'', ''r'', ''proj'', ''a.b'', ''x.py'']] \<and>
   checked_paths demo_result = map path_str (sort (remdups demo_files))"
proof -
  have i: "opt_list (include_globs demo_params) \<noteq> []"
    by (simp add: demo_params_fields opt_list_def)
  have s: "sort (remdups demo_files)
             = [[''/'', ''r'', ''proj'', ''a'', ''x.py''],
                [''/'', ''r'', ''proj'', ''a.b'', ''x.py'']]"
    by (simp add: demo_files_def)
  from checked_paths_sorted_by_parts [OF demo_exists i demo_run] obtain rootp paths where
    r: "root_for_globs demo_host demo_params = Inr rootp" and
    p: "iter_included_paths demo_host rootp
          (include_globs demo_params) (exclude_globs demo_params) = Inr paths" and
    c: "checked_paths demo_result = map path_str (sort (remdups paths))"
    by (elim exE conjE) (rule that; simp)
  from r have "rootp = [''/'', ''r'', ''proj'']"
    by (simp add: demo_root)
  with p have "paths = demo_files"
    by (simp add: demo_params_fields demo_iter)
  with c have "checked_paths demo_result = map path_str (sort (remdups demo_files))"
    by simp
  then show ?thesis
    by (intro conjI demo_exists i demo_run s)
qed

text \<open>
  Claim C9 as stated fails: in the sample run the checked paths, and the path arguments of
  the command line, are \<^verbatim>\<open>/r/proj/a/x.py\<close> and then \<^verbatim>\<open>/r/proj/a.b/x.py\<close>, while as
  strings the second is the smaller one.
\<close>

theorem checked_paths_string_order_counterexample:
  "run_check demo_host demo_params = Inr demo_result \<and>
   checked_paths demo_result = [''/r/proj/a/x.py'', ''/r/proj/a.b/x.py''] \<and>
   command demo_result
     = [''/usr/bin/pyright'', ''--outputjson'', ''/r/proj/a/x.py'', ''/r/proj/a.b/x.py''] \<and>
   ''/r/proj/a.b/x.py'' < ''/r/proj/a/x.py'' \<and>
   \<not> sorted (checked_paths demo_result)"
  by (simp add: demo_run) (simp add: demo_result_def)


section \<open>Defaults of the normalization\<close>

lemma normalize_diag_no_range:
  assumes "map_of kvs ''range'' = None"
      and "resolve h (mk_path h (case map_of kvs ''file'' of None \<Rightarrow> [] | Some v \<Rightarrow> py_str h v))
             = Inr fp"
  shows "\<exists>n. normalize_diag h (JDict kvs) = Inr n \<and>
             filepath n = path_str fp \<and>
             rng n = \<lparr> start = \<lparr> line = 0, character = 0 \<rparr>,
                      endpos = \<lparr> line = 0, character = 0 \<rparr> \<rparr>"
proof -
  obtain l where
    "SEVERITY_LEVEL (sev_of_raw (case map_of kvs ''severity'' of
                                   None \<Rightarrow> JStr ''information'' | Some v \<Rightarrow> v)) = Some l"
    using SEVERITY_LEVEL_sev_of_raw by blast
  moreover have
    "py_str h (case map_of kvs ''file'' of None \<Rightarrow> JStr [] | Some v \<Rightarrow> v)
       = (case map_of kvs ''file'' of None \<Rightarrow> [] | Some v \<Rightarrow> py_str h v)"
    by (simp add: py_str_def split: option.splits)
  ultimately show ?thesis
    using assms by (simp add: normalize_diag_def get_or_empty_absent get_int_JDict)
qed

lemma normalize_diag_resolve_raises:
  assumes "map_of kvs ''range'' = None"
      and "resolve h (mk_path h (case map_of kvs ''file'' of None \<Rightarrow> [] | Some v \<Rightarrow> py_str h v))
             = Inl e"
  shows "normalize_diag h (JDict kvs) = Inl e"
proof -
  have "py_str h (case map_of kvs ''file'' of None \<Rightarrow> JStr [] | Some v \<Rightarrow> v)
          = (case map_of kvs ''file'' of None \<Rightarrow> [] | Some v \<Rightarrow> py_str h v)"
    by (simp add: py_str_def split: option.splits)
  with assms show ?thesis
    by (simp add: normalize_diag_def get_or_empty_absent)
qed

lemma normalize_diag_bad_range:
  assumes "map_of kvs ''range'' = Some v" and "truthy v" and "\<forall>m. v \<noteq> JDict m"
  shows "normalize_diag h (JDict kvs) = Inl AttributeError"
proof -
  from assms(3) have "dict_get v ''start'' JNull = Inl AttributeError"
    by (cases v) simp_all
  with assms(1,2) show ?thesis
    by (simp add: normalize_diag_def get_or_empty_def or_empty_dict_def)
qed

lemma normalize_diag_bad_start_line:
  assumes "map_of kvs ''range'' = Some (JDict rg)" and "rg \<noteq> []"
      and "map_of rg ''start'' = Some (JDict st)" and "st \<noteq> []"
      and "resolve h (mk_path h (case map_of kvs ''file'' of None \<Rightarrow> [] | Some v \<Rightarrow> py_str h v))
             = Inr fp"
      and "get_int h (JDict st) ''line'' = Inl e"
  shows "normalize_diag h (JDict kvs) = Inl e"
proof -
  have "py_str h (case map_of kvs ''file'' of None \<Rightarrow> JStr [] | Some v \<Rightarrow> v)
          = (case map_of kvs ''file'' of None \<Rightarrow> [] | Some v \<Rightarrow> py_str h v)"
    by (simp add: py_str_def split: option.splits)
  with assms show ?thesis
    by (simp add: normalize_diag_def get_or_empty_JDict or_empty_dict_def)
qed

lemma normalize_diag_fields:
  assumes "normalize_diag h (JDict kvs) = Inr n"
  shows "severity n = sev_of_raw (case map_of kvs ''severity'' of
                                     None \<Rightarrow> JStr ''information'' | Some v \<Rightarrow> v)"
    and "\<exists>fp. resolve h (mk_path h (py_str h
                 (case map_of kvs ''file'' of None \<Rightarrow> JStr [] | Some v \<Rightarrow> v))) = Inr fp \<and>
              filepath n = path_str fp"
    and "rule n = rule_of_raw (case map_of kvs ''rule'' of None \<Rightarrow> JNull | Some v \<Rightarrow> v)"
    and "\<exists>rng_d start_d end_d.
           get_or_empty (JDict kvs) ''range'' = Inr rng_d \<and>
           get_or_empty rng_d ''start'' = Inr start_d \<and>
           get_or_empty rng_d ''end'' = Inr end_d \<and>
           get_int h start_d ''line'' = Inr (line (start (rng n))) \<and>
           get_int h start_d ''character'' = Inr (character (start (rng n))) \<and>
           get_int h end_d ''line'' = Inr (line (endpos (rng n))) \<and>
           get_int h end_d ''character'' = Inr (character (endpos (rng n)))"
proof -
  from normalize_diag_unfold [OF assms]
  obtain file_raw sev_raw rng_d start_d end_d file_res sl sc el ec lvl msg_raw rule_val where
    f: "dict_get (JDict kvs) ''file'' (JStr []) = Inr file_raw" and
    s: "dict_get (JDict kvs) ''severity'' (JStr ''information'') = Inr sev_raw" and
    r1: "get_or_empty (JDict kvs) ''range'' = Inr rng_d" and
    r2: "get_or_empty rng_d ''start'' = Inr start_d" and
    r3: "get_or_empty rng_d ''end'' = Inr end_d" and
    fr: "resolve h (mk_path h (py_str h file_raw)) = Inr file_res" and
    i1: "get_int h start_d ''line'' = Inr sl" and
    i2: "get_int h start_d ''character'' = Inr sc" and
    i3: "get_int h end_d ''line'' = Inr el" and
    i4: "get_int h end_d ''character'' = Inr ec" and
    ru: "dict_get (JDict kvs) ''rule'' JNull = Inr rule_val" and
    n: "Inr \<lparr> filepath = path_str file_res,
              rng = \<lparr> start = \<lparr> line = sl, character = sc \<rparr>,
                      endpos = \<lparr> line = el, character = ec \<rparr> \<rparr>,
              severity = sev_of_raw sev_raw,
              severity_level = lvl,
              message = py_str h msg_raw,
              code = rule_of_raw rule_val,
              rule = rule_of_raw rule_val \<rparr> = (Inr n :: error + DiagnosticOut)"
    by (elim exE conjE) (rule that; assumption)
  from n have n': "n = \<lparr> filepath = path_str file_res,
              rng = \<lparr> start = \<lparr> line = sl, character = sc \<rparr>,
                      endpos = \<lparr> line = el, character = ec \<rparr> \<rparr>,
              severity = sev_of_raw sev_raw,
              severity_level = lvl,
              message = py_str h msg_raw,
              code = rule_of_raw rule_val,
              rule = rule_of_raw rule_val \<rparr>"
    by simp
  from s show "severity n = sev_of_raw (case map_of kvs ''severity'' of
                                     None \<Rightarrow> JStr ''information'' | Some v \<Rightarrow> v)"
    by (auto simp: n')
  from f fr show "\<exists>fp. resolve h (mk_path h (py_str h
                 (case map_of kvs ''file'' of None \<Rightarrow> JStr [] | Some v \<Rightarrow> v))) = Inr fp \<and>
              filepath n = path_str fp"
    by (auto simp: n')
  from ru show "rule n = rule_of_raw (case map_of kvs ''rule'' of None \<Rightarrow> JNull | Some v \<Rightarrow> v)"
    by (auto simp: n')
  have "get_int h start_d ''line'' = Inr (line (start (rng n)))"
       "get_int h start_d ''character'' = Inr (character (start (rng n)))"
       "get_int h end_d ''line'' = Inr (line (endpos (rng n)))"
       "get_int h end_d ''character'' = Inr (character (endpos (rng n)))"
    using i1 i2 i3 i4 by (simp_all add: n')
  with r1 r2 r3 show "\<exists>rng_d start_d end_d.
           get_or_empty (JDict kvs) ''range'' = Inr rng_d \<and>
           get_or_empty rng_d ''start'' = Inr start_d \<and>
           get_or_empty rng_d ''end'' = Inr end_d \<and>
           get_int h start_d ''line'' = Inr (line (start (rng n))) \<and>
           get_int h start_d ''character'' = Inr (character (start (rng n))) \<and>
           get_int h end_d ''line'' = Inr (line (endpos (rng n))) \<and>
           get_int h end_d ''character'' = Inr (character (endpos (rng n)))"
    by (intro exI [of _ rng_d] exI [of _ start_d] exI [of _ end_d] conjI)
qed

lemma normalize_diag_bad_endpoint:
  assumes "map_of kvs ''range'' = Some (JDict rg)" and "rg \<noteq> []"
      and "map_of rg ''start'' = Some w \<or> map_of rg ''end'' = Some w"
      and "truthy w" and "\<forall>m. w \<noteq> JDict m"
  shows "\<exists>e. normalize_diag h (JDict kvs) = Inl e"
proof (cases "normalize_diag h (JDict kvs)")
  case (Inl e)
  then show ?thesis by blast
next
  case (Inr n)
  from normalize_diag_fields(4) [OF Inr] obtain rng_d start_d end_d where
    r1: "get_or_empty (JDict kvs) ''range'' = Inr rng_d" and
    r2: "get_or_empty rng_d ''start'' = Inr start_d" and
    r3: "get_or_empty rng_d ''end'' = Inr end_d" and
    i1: "get_int h start_d ''line'' = Inr (line (start (rng n)))" and
    i3: "get_int h end_d ''line'' = Inr (line (endpos (rng n)))"
    by (elim exE conjE) (rule that; assumption)
  from r1 [symmetric] assms(1,2) have rd: "rng_d = JDict rg"
    by (simp add: get_or_empty_JDict or_empty_dict_def)
  from assms(5) have na: "get_int h w k = Inl AttributeError" for k
    by (cases w) (simp_all add: get_int_def bind_err_def)
  from assms(3) show ?thesis
  proof
    assume "map_of rg ''start'' = Some w"
    with r2 [unfolded rd, symmetric] assms(4) have "start_d = w"
      by (simp add: get_or_empty_JDict or_empty_dict_def)
    with i1 na show ?thesis by simp
  next
    assume "map_of rg ''end'' = Some w"
    with r3 [unfolded rd, symmetric] assms(4) have "end_d = w"
      by (simp add: get_or_empty_JDict or_empty_dict_def)
    with i3 na show ?thesis by simp
  qed
qed

text \<open>
  Claim C4, as amended. For a raw diagnostic that is a mapping and whose normalization
  returns: the severity is the raw one if that is one of the three known names and
  \<^verbatim>\<open>information\<close> otherwise, whatever the raw value is; the file is the resolved path of
  the raw file's string; a rule that is a string is copied, the empty string included, and
  any other rule is absent; each position field is read from the mappings \<^verbatim>\<open>range\<close>,
  \<^verbatim>\<open>start\<close> and \<^verbatim>\<open>end\<close>, each replaced by the empty mapping when absent or false, and
  is 0 when its key is absent and \<^verbatim>\<open>int\<close> of the raw value when the key is present.
  The normalization raises instead of returning when the file cannot be resolved, when
  \<^verbatim>\<open>range\<close>, \<^verbatim>\<open>start\<close> or \<^verbatim>\<open>end\<close> is true and not a mapping, and when a
  position is present and \<^verbatim>\<open>int\<close> rejects it: \<^verbatim>\<open>null\<close>, a list, a mapping, a string
  that is no integer literal. A mapping without \<^verbatim>\<open>range\<close> whose file resolves always
  normalizes, to positions 0.
\<close>

theorem normalize_diag_defaults:
  "(normalize_diag h (JDict kvs) = Inr n \<longrightarrow>
      severity n =
        (case map_of kvs ''severity'' of
           Some (JStr s) \<Rightarrow>
             if s = ''information'' \<or> s = ''warning'' \<or> s = ''error'' then s
             else ''information''
         | _ \<Rightarrow> ''information'') \<and>
      (\<exists>fp. resolve h (mk_path h
               (case map_of kvs ''file'' of None \<Rightarrow> [] | Some v \<Rightarrow> py_str h v)) = Inr fp \<and>
            filepath n = path_str fp) \<and>
      rule n = (case map_of kvs ''rule'' of Some (JStr s) \<Rightarrow> Some s | _ \<Rightarrow> None) \<and>
      (\<exists>rng_d start_d end_d.
         get_or_empty (JDict kvs) ''range'' = Inr rng_d \<and>
         get_or_empty rng_d ''start'' = Inr start_d \<and>
         get_or_empty rng_d ''end'' = Inr end_d \<and>
         get_int h start_d ''line'' = Inr (line (start (rng n))) \<and>
         get_int h start_d ''character'' = Inr (character (start (rng n))) \<and>
         get_int h end_d ''line'' = Inr (line (endpos (rng n))) \<and>
         get_int h end_d ''character'' = Inr (character (endpos (rng n))))) \<and>
   (map_of kvs ''range'' = None \<and>
    resolve h (mk_path h (case map_of kvs ''file'' of None \<Rightarrow> [] | Some v \<Rightarrow> py_str h v))
      = Inr fp \<longrightarrow>
      (\<exists>n. normalize_diag h (JDict kvs) = Inr n \<and>
           filepath n = path_str fp \<and>
           rng n = \<lparr> start = \<lparr> line = 0, character = 0 \<rparr>,
                    endpos = \<lparr> line = 0, character = 0 \<rparr> \<rparr>)) \<and>
   (map_of kvs ''range'' = None \<and>
    resolve h (mk_path h (case map_of kvs ''file'' of None \<Rightarrow> [] | Some v \<Rightarrow> py_str h v))
      = Inl e \<longrightarrow>
      normalize_diag h (JDict kvs) = Inl e) \<and>
   (map_of kvs ''range'' = Some v \<and> truthy v \<and> (\<forall>m. v \<noteq> JDict m) \<longrightarrow>
      normalize_diag h (JDict kvs) = Inl AttributeError) \<and>
   (map_of kvs ''range'' = Some (JDict rg) \<and> rg \<noteq> [] \<and>
    (map_of rg ''start'' = Some w \<or> map_of rg ''end'' = Some w) \<and>
    truthy w \<and> (\<forall>m. w \<noteq> JDict m) \<longrightarrow>
      (\<exists>e. normalize_diag h (JDict kvs) = Inl e)) \<and>
   (map_of pos k = None \<longrightarrow> get_int h (JDict pos) k = Inr 0) \<and>
   (map_of pos k = Some v \<longrightarrow> get_int h (JDict pos) k = py_int h v) \<and>
   (map_of pos k = Some (JInt i) \<longrightarrow> get_int h (JDict pos) k = Inr i) \<and>
   (map_of pos k = Some JNull \<longrightarrow> get_int h (JDict pos) k = Inl TypeError) \<and>
   (map_of pos k = Some (JList xs) \<longrightarrow> get_int h (JDict pos) k = Inl TypeError) \<and>
   (map_of pos k = Some (JDict m) \<longrightarrow> get_int h (JDict pos) k = Inl TypeError) \<and>
   (map_of pos k = Some (JStr s) \<and> int_of_str h s = None \<longrightarrow>
      get_int h (JDict pos) k = Inl ValueError) \<and>
   (map_of kvs ''range'' = Some (JDict rg) \<and> rg \<noteq> [] \<and>
    map_of rg ''start'' = Some (JDict st) \<and> st \<noteq> [] \<and>
    resolve h (mk_path h (case map_of kvs ''file'' of None \<Rightarrow> [] | Some v \<Rightarrow> py_str h v))
      = Inr fp \<and>
    get_int h (JDict st) ''line'' = Inl e \<longrightarrow>
      normalize_diag h (JDict kvs) = Inl e)"
proof (intro conjI impI)
  assume n: "normalize_diag h (JDict kvs) = Inr n"
  from normalize_diag_fields(1) [OF n]
  show "severity n =
        (case map_of kvs ''severity'' of
           Some (JStr s) \<Rightarrow>
             if s = ''information'' \<or> s = ''warning'' \<or> s = ''error'' then s
             else ''information''
         | _ \<Rightarrow> ''information'')"
    by (simp add: sev_of_raw_def split: option.splits json.splits)
  have "py_str h (case map_of kvs ''file'' of None \<Rightarrow> JStr [] | Some v \<Rightarrow> v)
          = (case map_of kvs ''file'' of None \<Rightarrow> [] | Some v \<Rightarrow> py_str h v)"
    by (simp add: py_str_def split: option.splits)
  with normalize_diag_fields(2) [OF n]
  show "\<exists>fp. resolve h (mk_path h
               (case map_of kvs ''file'' of None \<Rightarrow> [] | Some v \<Rightarrow> py_str h v)) = Inr fp \<and>
            filepath n = path_str fp"
    by simp
  from normalize_diag_fields(3) [OF n]
  show "rule n = (case map_of kvs ''rule'' of Some (JStr s) \<Rightarrow> Some s | _ \<Rightarrow> None)"
    by (simp add: rule_of_raw_def split: option.splits json.splits)
  from normalize_diag_fields(4) [OF n]
  show "\<exists>rng_d start_d end_d.
         get_or_empty (JDict kvs) ''range'' = Inr rng_d \<and>
         get_or_empty rng_d ''start'' = Inr start_d \<and>
         get_or_empty rng_d ''end'' = Inr end_d \<and>
         get_int h start_d ''line'' = Inr (line (start (rng n))) \<and>
         get_int h start_d ''character'' = Inr (character (start (rng n))) \<and>
         get_int h end_d ''line'' = Inr (line (endpos (rng n))) \<and>
         get_int h end_d ''character'' = Inr (character (endpos (rng n)))" .
next
  assume "map_of kvs ''range'' = None \<and>
    resolve h (mk_path h (case map_of kvs ''file'' of None \<Rightarrow> [] | Some v \<Rightarrow> py_str h v))
      = Inr fp"
  then show "\<exists>n. normalize_diag h (JDict kvs) = Inr n \<and>
           filepath n = path_str fp \<and>
           rng n = \<lparr> start = \<lparr> line = 0, character = 0 \<rparr>,
                    endpos = \<lparr> line = 0, character = 0 \<rparr> \<rparr>"
    by (intro normalize_diag_no_range) simp_all
next
  assume "map_of kvs ''range'' = None \<and>
    resolve h (mk_path h (case map_of kvs ''file'' of None \<Rightarrow> [] | Some v \<Rightarrow> py_str h v))
      = Inl e"
  then show "normalize_diag h (JDict kvs) = Inl e"
    by (intro normalize_diag_resolve_raises) simp_all
next
  assume "map_of kvs ''range'' = Some v \<and> truthy v \<and> (\<forall>m. v \<noteq> JDict m)"
  then show "normalize_diag h (JDict kvs) = Inl AttributeError"
    by (intro normalize_diag_bad_range [of kvs v]) simp_all
next
  assume "map_of kvs ''range'' = Some (JDict rg) \<and> rg \<noteq> [] \<and>
    (map_of rg ''start'' = Some w \<or> map_of rg ''end'' = Some w) \<and>
    truthy w \<and> (\<forall>m. w \<noteq> JDict m)"
  then show "\<exists>e. normalize_diag h (JDict kvs) = Inl e"
    by (intro normalize_diag_bad_endpoint [of kvs rg w]) simp_all
next
  assume "map_of pos k = None"
  then show "get_int h (JDict pos) k = Inr 0" by (simp add: get_int_JDict)
next
  assume "map_of pos k = Some v"
  then show "get_int h (JDict pos) k = py_int h v" by (simp add: get_int_JDict)
next
  assume "map_of pos k = Some (JInt i)"
  then show "get_int h (JDict pos) k = Inr i" by (simp add: get_int_JDict)
next
  assume "map_of pos k = Some JNull"
  then show "get_int h (JDict pos) k = Inl TypeError" by (simp add: get_int_JDict)
next
  assume "map_of pos k = Some (JList xs)"
  then show "get_int h (JDict pos) k = Inl TypeError" by (simp add: get_int_JDict)
next
  assume "map_of pos k = Some (JDict m)"
  then show "get_int h (JDict pos) k = Inl TypeError" by (simp add: get_int_JDict)
next
  assume "map_of pos k = Some (JStr s) \<and> int_of_str h s = None"
  then show "get_int h (JDict pos) k = Inl ValueError" by (simp add: get_int_JDict)
next
  assume "map_of kvs ''range'' = Some (JDict rg) \<and> rg \<noteq> [] \<and>
    map_of rg ''start'' = Some (JDict st) \<and> st \<noteq> [] \<and>
    resolve h (mk_path h (case map_of kvs ''file'' of None \<Rightarrow> [] | Some v \<Rightarrow> py_str h v))
      = Inr fp \<and>
    get_int h (JDict st) ''line'' = Inl e"
  then show "normalize_diag h (JDict kvs) = Inl e"
    by (intro normalize_diag_bad_start_line [of kvs rg st h fp]) simp_all
qed

text \<open>A raw diagnostic without a range and with the empty string as its rule: its file
  resolves, it normalizes, to positions 0, and keeps the rule.\<close>

theorem normalize_diag_defaults_witness:
  "map_of [(''file'', JStr ''/r/proj/a/x.py''), (''severity'', JStr ''error''),
           (''message'', JStr ''Type mismatch''), (''rule'', JStr [])] ''range'' = None \<and>
   resolve demo_host (mk_path demo_host ''/r/proj/a/x.py'')
     = Inr [''/'', ''r'', ''proj'', ''a'', ''x.py''] \<and>
   (\<exists>n. normalize_diag demo_host raw_empty_rule = Inr n \<and>
        filepath n = ''/r/proj/a/x.py'' \<and>
        rng n = \<lparr> start = \<lparr> line = 0, character = 0 \<rparr>,
                 endpos = \<lparr> line = 0, character = 0 \<rparr> \<rparr> \<and>
        severity n = ''error'' \<and> rule n = Some [])"
proof -
  let ?kvs = "[(''file'', JStr ''/r/proj/a/x.py''), (''severity'', JStr ''error''),
               (''message'', JStr ''Type mismatch''), (''rule'', JStr [])]"
  have a: "map_of ?kvs ''range'' = None"
    by simp
  have f: "resolve demo_host (mk_path demo_host ''/r/proj/a/x.py'')
             = Inr [''/'', ''r'', ''proj'', ''a'', ''x.py'']"
    by (simp add: demo_host_fields posix_path_def)
  have f': "resolve demo_host (mk_path demo_host
              (case map_of ?kvs ''file'' of None \<Rightarrow> [] | Some v \<Rightarrow> py_str demo_host v))
            = Inr [''/'', ''r'', ''proj'', ''a'', ''x.py'']"
    using f by (simp add: py_str_def)
  have s: "path_str [''/'', ''r'', ''proj'', ''a'', ''x.py''] = ''/r/proj/a/x.py''"
    by (simp add: path_str_def is_root_part_def)
  from normalize_diag_defaults
    [of demo_host ?kvs _ "[''/'', ''r'', ''proj'', ''a'', ''x.py'']",
      THEN conjunct2, THEN conjunct1, THEN mp, OF conjI [OF a f']]
  obtain n where
    n: "normalize_diag demo_host (JDict ?kvs) = Inr n" and
    p: "filepath n = path_str [''/'', ''r'', ''proj'', ''a'', ''x.py'']" and
    z: "rng n = \<lparr> start = \<lparr> line = 0, character = 0 \<rparr>,
                 endpos = \<lparr> line = 0, character = 0 \<rparr> \<rparr>"
    by (elim exE conjE) (rule that; assumption)
  from normalize_diag_defaults [of demo_host ?kvs n, THEN conjunct1, THEN mp, OF n]
  have "severity n = ''error''" and "rule n = Some []"
    by simp_all
  with n z p s a f show ?thesis
    by (simp add: raw_empty_rule_def)
qed

text \<open>
  Claim C4 as stated fails twice: a rule that is the empty string stays the empty string
  instead of becoming absent, and a start line that is \<^verbatim>\<open>null\<close> makes the normalization
  raise instead of giving 0.
\<close>

theorem normalize_diag_defaults_counterexample:
  "normalize_diag demo_host raw_empty_rule =
     Inr \<lparr> filepath = ''/r/proj/a/x.py'',
           rng = \<lparr> start = \<lparr> line = 0, character = 0 \<rparr>,
                   endpos = \<lparr> line = 0, character = 0 \<rparr> \<rparr>,
           severity = ''error'', severity_level = 3, message = ''Type mismatch'',
           code = Some [], rule = Some [] \<rparr> \<and>
   normalize_diag demo_host raw_null_line = Inl TypeError"
  by (simp add: normalize_diag_def raw_empty_rule_def raw_null_line_def get_or_empty_def
      get_int_def or_empty_dict_def sev_of_raw_def rule_of_raw_def SEVERITY_LEVEL_def
      py_str_def demo_host_fields posix_path_def path_str_def is_root_part_def)


end
